theory Spec2Isabelle
  imports Complex_Main "HOL-Library.Product_Lexorder"
begin

text \<open>
  A shallow embedding of the market-data fetch engine of the \<open>ibkr\<close> package: the disk
  cache (\<open>cache.py\<close>), the instrument profiles (\<open>profiles.py\<close>), the historical
  series and snapshot client (\<open>market_data.py\<close>) and the connection manager
  (\<open>connection.py\<close>). Functions keep the names of the source; a leading underscore is
  dropped. State is passed explicitly: the cache directory, and a trace of the calls made
  on the gateway. Exceptions are values of the type \<open>exn\<close>. What lies outside the
  package (the gateway, the contract resolver, the digest, the clock) is a parameter.

  The model takes floats as reals with NaN apart, timestamps as calendar fields, the date
  arguments of the cache functions as proper timestamps (\<open>NaT\<close> appears as an argument
  of \<open>fetch_series\<close> only), the columns of a cache file as float columns, and the clock
  as read once per call. Errors of the file system other than an unreadable cache file are
  not modelled.
\<close>

section \<open>Strings\<close>

text \<open>
  Python \<open>str\<close> values are modelled as \<open>string\<close>. Symbols, instrument types and
  source variants are ASCII, so \<open>str.isspace\<close>, \<open>str.upper\<close> and \<open>str.lower\<close> are
  given on the ASCII range; other characters are left as they are.
\<close>

definition py_isspace :: "char \<Rightarrow> bool" where
  "py_isspace c =
     (c \<in> set [CHR 0x09, CHR 0x0A, CHR 0x0B, CHR 0x0C, CHR 0x0D,
                CHR 0x1C, CHR 0x1D, CHR 0x1E, CHR 0x1F, CHR 0x20])"

definition ascii_lowercase :: string where
  "ascii_lowercase = ''abcdefghijklmnopqrstuvwxyz''"

definition ascii_uppercase :: string where
  "ascii_uppercase = ''ABCDEFGHIJKLMNOPQRSTUVWXYZ''"

definition py_upper_char :: "char \<Rightarrow> char" where
  "py_upper_char c =
     (case map_of (zip ascii_lowercase ascii_uppercase) c of Some u \<Rightarrow> u | None \<Rightarrow> c)"

definition py_lower_char :: "char \<Rightarrow> char" where
  "py_lower_char c =
     (case map_of (zip ascii_uppercase ascii_lowercase) c of Some l \<Rightarrow> l | None \<Rightarrow> c)"

definition py_strip :: "string \<Rightarrow> string" where
  "py_strip s = rev (dropWhile py_isspace (rev (dropWhile py_isspace s)))"

definition py_upper :: "string \<Rightarrow> string" where
  "py_upper s = map py_upper_char s"

definition py_lower :: "string \<Rightarrow> string" where
  "py_lower s = map py_lower_char s"

text \<open>\<open>"sep".join(parts)\<close>.\<close>

fun py_join :: "string \<Rightarrow> string list \<Rightarrow> string" where
  "py_join sep [] = []"
| "py_join sep [p] = p"
| "py_join sep (p # q # ps) = p @ sep @ py_join sep (q # ps)"

text \<open>\<open>needle in haystack\<close> for strings.\<close>

fun py_contains :: "string \<Rightarrow> string \<Rightarrow> bool" where
  "py_contains needle [] = (needle = [])"
| "py_contains needle (c # cs) =
     (take (length needle) (c # cs) = needle \<or> py_contains needle cs)"

text \<open>Decimal rendering of an integer, as \<open>str(n)\<close> and \<open>f"{n}"\<close> give it.\<close>

definition digit_char :: "nat \<Rightarrow> char" where
  "digit_char n = ''0123456789'' ! n"

fun str_nat :: "nat \<Rightarrow> string" where
  "str_nat n = (if n < 10 then [digit_char n] else str_nat (n div 10) @ [digit_char (n mod 10)])"

declare str_nat.simps [simp del]

definition str_int :: "int \<Rightarrow> string" where
  "str_int i = (if i < 0 then CHR ''-'' # str_nat (nat (- i)) else str_nat (nat i))"

text \<open>Zero padding on the left, as \<open>%04d\<close> and \<open>%02d\<close> in \<open>date.isoformat\<close>.\<close>

definition zero_pad :: "nat \<Rightarrow> string \<Rightarrow> string" where
  "zero_pad w s = replicate (w - length s) (CHR ''0'') @ s"


section \<open>Calendar dates and timestamps\<close>

record date =
  d_year :: int
  d_month :: nat
  d_day :: nat

text \<open>A naive timestamp: a calendar date and the nanoseconds since its midnight.\<close>

record timestamp =
  ts_date :: date
  ts_time :: nat

text \<open>
  A \<open>pd.Timestamp\<close> is timezone-naive, or timezone-aware; an aware one is given by its
  wall-clock fields in UTC and its wall-clock fields in its own zone.
\<close>

datatype pd_timestamp = Naive timestamp | Aware timestamp timestamp

definition date_key :: "date \<Rightarrow> int \<times> nat \<times> nat" where
  "date_key d = (d_year d, d_month d, d_day d)"

definition date_le :: "date \<Rightarrow> date \<Rightarrow> bool" where
  "date_le a b = (date_key a \<le> date_key b)"

definition date_lt :: "date \<Rightarrow> date \<Rightarrow> bool" where
  "date_lt a b = (date_key a < date_key b)"

definition ts_key :: "timestamp \<Rightarrow> (int \<times> nat \<times> nat) \<times> nat" where
  "ts_key t = (date_key (ts_date t), ts_time t)"

definition ts_le :: "timestamp \<Rightarrow> timestamp \<Rightarrow> bool" where
  "ts_le a b = (ts_key a \<le> ts_key b)"

definition ts_lt :: "timestamp \<Rightarrow> timestamp \<Rightarrow> bool" where
  "ts_lt a b = (ts_key a < ts_key b)"

definition is_leap :: "int \<Rightarrow> bool" where
  "is_leap y = (y mod 4 = 0 \<and> (y mod 100 \<noteq> 0 \<or> y mod 400 = 0))"

definition days_in_month :: "int \<Rightarrow> nat \<Rightarrow> nat" where
  "days_in_month y m =
     (if m = 2 then (if is_leap y then 29 else 28)
      else if m = 4 \<or> m = 6 \<or> m = 9 \<or> m = 11 then 30 else 31)"

definition valid_date :: "date \<Rightarrow> bool" where
  "valid_date d =
     (1 \<le> d_month d \<and> d_month d \<le> 12 \<and> 1 \<le> d_day d \<and> d_day d \<le> days_in_month (d_year d) (d_month d))"

text \<open>
  \<open>pd.Timestamp(d) + pd.DateOffset(years=n)\<close>: the year moves by \<open>n\<close> and the day is
  clipped to the length of the month in the new year (29 February becomes 28 February).
\<close>

definition date_add_years :: "date \<Rightarrow> int \<Rightarrow> date" where
  "date_add_years d n =
     \<lparr>d_year = d_year d + n, d_month = d_month d,
      d_day = min (d_day d) (days_in_month (d_year d + n) (d_month d))\<rparr>"

text \<open>\<open>Timestamp.date()\<close>: the calendar date of the wall-clock fields.\<close>

fun pd_date :: "pd_timestamp \<Rightarrow> date" where
  "pd_date (Naive t) = ts_date t"
| "pd_date (Aware utc loc) = ts_date loc"

definition date_isoformat :: "date \<Rightarrow> string" where
  "date_isoformat d =
     zero_pad 4 (str_int (d_year d)) @ ''-'' @ zero_pad 2 (str_nat (d_month d)) @ ''-''
       @ zero_pad 2 (str_nat (d_day d))"


section \<open>Instrument profiles (profiles.py, \_types.py)\<close>

record InstrumentProfile =
  instrument_type :: string
  what_to_show_chain :: "string list"
  bar_size :: string
  use_rth :: bool
  duration :: string

definition PROFILES :: "(string \<times> InstrumentProfile) list" where
  "PROFILES =
    [(''futures'', \<lparr>instrument_type = ''futures'', what_to_show_chain = [''TRADES''],
        bar_size = ''1 month'', use_rth = True, duration = ''2 Y''\<rparr>),
     (''futures_daily'', \<lparr>instrument_type = ''futures'', what_to_show_chain = [''TRADES''],
        bar_size = ''1 day'', use_rth = True, duration = ''2 Y''\<rparr>),
     (''fx'', \<lparr>instrument_type = ''fx'', what_to_show_chain = [''MIDPOINT'', ''BID'', ''ASK''],
        bar_size = ''1 day'', use_rth = False, duration = ''2 Y''\<rparr>),
     (''bond'', \<lparr>instrument_type = ''bond'', what_to_show_chain = [''MIDPOINT'', ''BID'', ''ASK''],
        bar_size = ''1 day'', use_rth = True, duration = ''2 Y''\<rparr>),
     (''option'', \<lparr>instrument_type = ''option'', what_to_show_chain = [''MIDPOINT'', ''BID'', ''ASK''],
        bar_size = ''1 day'', use_rth = True, duration = ''2 Y''\<rparr>)]"

definition VALID_INSTRUMENT_TYPES :: "string list" where
  "VALID_INSTRUMENT_TYPES =
     [''equity'', ''option'', ''futures'', ''fx'', ''fx_artifact'', ''bond'', ''unknown'']"

definition coerce_instrument_type :: "string \<Rightarrow> string \<Rightarrow> string" where
  "coerce_instrument_type v dflt =
     (let normalized = py_lower (py_strip v)
      in if normalized \<in> set VALID_INSTRUMENT_TYPES then normalized else dflt)"

text \<open>\<open>get_profile\<close>; \<open>None\<close> is the \<open>KeyError\<close> of an instrument type without a profile.\<close>

definition get_profile :: "string \<Rightarrow> InstrumentProfile option" where
  "get_profile itype =
     (let raw_instrument_type = py_lower (py_strip itype) in
      case map_of PROFILES raw_instrument_type of
        Some p \<Rightarrow> Some p
      | None \<Rightarrow>
         if raw_instrument_type \<in> {''fx'', ''forex''} then map_of PROFILES ''fx''
         else
           let normalized = coerce_instrument_type itype ''unknown'';
               normalized = (if normalized = ''fx_artifact'' then ''fx'' else normalized)
           in map_of PROFILES normalized)"


section \<open>Duration strings (market\_data.py)\<close>

definition compute_duration_str :: "pd_timestamp \<Rightarrow> pd_timestamp \<Rightarrow> string" where
  "compute_duration_str start_dt end_dt =
     (let start_date = pd_date start_dt; end_date = pd_date end_dt in
      if date_le end_date start_date then ''1 Y''
      else
        let years = d_year end_date - d_year start_date;
            anniversary = date_add_years start_date years;
            years = (if date_lt anniversary end_date then years + 1 else years);
            years = max 1 years
        in str_int years @ '' Y'')"

text \<open>\<open>now\<close> is the value of \<open>_utcnow()\<close>, a naive UTC timestamp.\<close>

definition duration_for_request ::
  "InstrumentProfile \<Rightarrow> pd_timestamp \<Rightarrow> pd_timestamp \<Rightarrow> timestamp \<Rightarrow> string" where
  "duration_for_request profile start_ts end_ts now =
     (if instrument_type profile = ''futures'' then compute_duration_str start_ts (Naive now)
      else compute_duration_str start_ts end_ts)"


section \<open>Disk cache (cache.py)\<close>

text \<open>
  A cached value is a float or NaN (\<open>None\<close>). An index entry is the timestamp that
  \<open>pd.to_datetime(..., errors="coerce")\<close> gives for it; \<open>None\<close> is \<open>NaT\<close>.
\<close>

type_synonym cell = "real option"

record series =
  s_name :: "string option"
  s_rows :: "(timestamp option \<times> cell) list"

text \<open>\<open>pd.Series(dtype=float)\<close>.\<close>

definition empty_series :: series where
  "empty_series = \<lparr>s_name = None, s_rows = []\<rparr>"

definition series_empty :: "series \<Rightarrow> bool" where
  "series_empty s = (s_rows s = [])"

definition dropna :: "series \<Rightarrow> series" where
  "dropna s = s\<lparr>s_rows := filter (\<lambda>r. snd r \<noteq> None) (s_rows s)\<rparr>"

text \<open>\<open>s[~s.index.isna()]\<close>.\<close>

definition drop_nat_index :: "series \<Rightarrow> series" where
  "drop_nat_index s = s\<lparr>s_rows := filter (\<lambda>r. fst r \<noteq> None) (s_rows s)\<rparr>"

text \<open>A data frame as parquet stores it: the index and the named columns.\<close>

record frame =
  f_index :: "timestamp option list"
  f_columns :: "(string \<times> cell list) list"

text \<open>\<open>DataFrame.empty\<close>: no rows or no columns.\<close>

definition frame_empty :: "frame \<Rightarrow> bool" where
  "frame_empty fr = (f_index fr = [] \<or> f_columns fr = [])"

text \<open>
  A file of the cache directory: its modification time in seconds (\<open>st_mtime\<close>) and its
  content, which \<open>pd.read_parquet\<close> either rejects with one of the errors that
  \<open>_safe_read\<close> catches, or reads as a frame. The cache directory maps file names to files.
\<close>

datatype file_content = Garbage | Parquet frame

record cache_file =
  f_mtime :: real
  f_content :: file_content

type_synonym filesystem = "string \<rightharpoonup> cache_file"

text \<open>The two clock readings the cache takes: \<open>time.time()\<close> and \<open>datetime.now(UTC)\<close>.\<close>

record clock =
  time_time :: real
  datetime_now :: pd_timestamp

definition CURRENT_MONTH_TTL_HOURS :: nat where
  "CURRENT_MONTH_TTL_HOURS = 4"

fun to_timestamp :: "pd_timestamp \<Rightarrow> timestamp" where
  "to_timestamp (Naive t) = t"
| "to_timestamp (Aware utc loc) = utc"

text \<open>
  \<open>month_start\<close> is \<open>now_ts.replace(day=1, hour=0, minute=0, second=0, microsecond=0)\<close>,
  which keeps the nanoseconds below one microsecond; \<open>month_start + MonthEnd(1)\<close> is the
  last day of that month at the same time of day.
\<close>

definition includes_current_month :: "pd_timestamp \<Rightarrow> pd_timestamp \<Rightarrow> pd_timestamp \<Rightarrow> bool" where
  "includes_current_month start_date end_date now =
     (let start_ts = to_timestamp start_date;
          end_ts = to_timestamp end_date;
          (start_ts, end_ts) = (if ts_lt end_ts start_ts then (end_ts, start_ts) else (start_ts, end_ts));
          now_ts = to_timestamp now;
          month_start = \<lparr>ts_date = (ts_date now_ts)\<lparr>d_day := 1\<rparr>, ts_time = ts_time now_ts mod 1000\<rparr>;
          month_end = month_start\<lparr>ts_date :=
             (ts_date month_start)\<lparr>d_day :=
                days_in_month (d_year (ts_date month_start)) (d_month (ts_date month_start))\<rparr>\<rparr>
      in ts_le start_ts month_end \<and> ts_le month_start end_ts)"

text \<open>\<open>_is_expired\<close>, given the clock reading and the file's modification time.\<close>

definition is_expired :: "real \<Rightarrow> real \<Rightarrow> nat option \<Rightarrow> bool" where
  "is_expired now_seconds mtime ttl_hours =
     (case ttl_hours of
        None \<Rightarrow> False
      | Some ttl \<Rightarrow> let age_hours = (now_seconds - mtime) / 3600 in age_hours > real ttl)"

text \<open>
  \<open>_safe_read\<close>: the series read, or \<open>None\<close> with the file removed. A missing file makes
  \<open>pd.read_parquet\<close> raise an \<open>OSError\<close>, which is caught like a parse error.
\<close>

definition safe_read :: "filesystem \<Rightarrow> string \<Rightarrow> series option \<times> filesystem" where
  "safe_read fs path =
     (case fs path of
        None \<Rightarrow> (None, fs)
      | Some f \<Rightarrow>
         (case f_content f of
            Garbage \<Rightarrow> (None, fs(path := None))
          | Parquet fr \<Rightarrow>
             if frame_empty fr then (Some empty_series, fs)
             else
               (case map_of (f_columns fr) ''value'' of
                  None \<Rightarrow> (None, fs(path := None))
                | Some vals \<Rightarrow>
                   (Some (drop_nat_index \<lparr>s_name = Some ''value'', s_rows = zip (f_index fr) vals\<rparr>),
                    fs))))"

text \<open>\<open>cache_key\<close>; \<open>md5\<close> stands for \<open>hashlib.md5(...).hexdigest()\<close>.\<close>

definition cache_key ::
  "(string \<Rightarrow> string) \<Rightarrow> string \<Rightarrow> string \<Rightarrow> string \<Rightarrow> string \<Rightarrow> bool \<Rightarrow> pd_timestamp \<Rightarrow> pd_timestamp
     \<Rightarrow> string" where
  "cache_key md5 symbol itype what_to_show bsize rth start_date end_date =
     (let start_iso = date_isoformat (ts_date (to_timestamp start_date));
          end_iso = date_isoformat (ts_date (to_timestamp end_date));
          key = py_join ''|''
            [py_upper (py_strip symbol),
             py_lower (py_strip itype),
             py_upper (py_strip what_to_show),
             py_strip bsize,
             (if rth then ''rth'' else ''all''),
             start_iso,
             end_iso]
      in md5 key)"

text \<open>\<open>_cache_path\<close>: the file name inside the cache directory.\<close>

definition cache_path ::
  "(string \<Rightarrow> string) \<Rightarrow> string \<Rightarrow> string \<Rightarrow> string \<Rightarrow> string \<Rightarrow> bool \<Rightarrow> pd_timestamp \<Rightarrow> pd_timestamp
     \<Rightarrow> string" where
  "cache_path md5 symbol itype what_to_show bsize rth start_date end_date =
     ''ibkr_'' @ cache_key md5 symbol itype what_to_show bsize rth start_date end_date @ ''.parquet''"

text \<open>
  \<open>get_cached\<close>. The argument \<open>now\<close> is the optional keyword of the source; without it
  the clock is read.
\<close>

definition get_cached ::
  "(string \<Rightarrow> string) \<Rightarrow> clock \<Rightarrow> filesystem
     \<Rightarrow> string \<Rightarrow> string \<Rightarrow> string \<Rightarrow> string \<Rightarrow> bool \<Rightarrow> pd_timestamp \<Rightarrow> pd_timestamp
     \<Rightarrow> pd_timestamp option \<Rightarrow> series option \<times> filesystem" where
  "get_cached md5 clk fs symbol itype what_to_show bsize rth start_date end_date now =
     (let path = cache_path md5 symbol itype what_to_show bsize rth start_date end_date in
      case fs path of
        None \<Rightarrow> (None, fs)
      | Some f \<Rightarrow>
         let ttl = (if includes_current_month start_date end_date
                        (case now of Some n \<Rightarrow> n | None \<Rightarrow> datetime_now clk)
                    then Some CURRENT_MONTH_TTL_HOURS else None)
         in if is_expired (time_time clk) (f_mtime f) ttl then (None, fs(path := None))
            else
              (case safe_read fs path of
                 (None, fs') \<Rightarrow> (None, fs')
               | (Some s, fs') \<Rightarrow> (Some (s\<lparr>s_name := Some (py_upper (py_strip symbol))\<rparr>), fs')))"

text \<open>\<open>put_cache\<close>: the path written, or \<open>None\<close> when nothing is stored.\<close>

definition put_cache ::
  "(string \<Rightarrow> string) \<Rightarrow> clock \<Rightarrow> filesystem \<Rightarrow> series
     \<Rightarrow> string \<Rightarrow> string \<Rightarrow> string \<Rightarrow> string \<Rightarrow> bool \<Rightarrow> pd_timestamp \<Rightarrow> pd_timestamp
     \<Rightarrow> string option \<times> filesystem" where
  "put_cache md5 clk fs s symbol itype what_to_show bsize rth start_date end_date =
     (if series_empty s \<or> series_empty (dropna s) then (None, fs)
      else
        let cleaned = drop_nat_index (dropna s) in
        if series_empty cleaned then (None, fs)
        else
          let path = cache_path md5 symbol itype what_to_show bsize rth start_date end_date;
              fr = \<lparr>f_index = map fst (s_rows cleaned),
                    f_columns = [(''value'', map snd (s_rows cleaned))]\<rparr>
          in (Some path, fs(path \<mapsto> \<lparr>f_mtime = time_time clk, f_content = Parquet fr\<rparr>)))"


section \<open>Exceptions (exceptions.py)\<close>

text \<open>
  The exception classes of the package, all subclasses of \<open>IBKRDataError\<close>, and the
  exceptions of other origin that the code distinguishes; each carries \<open>str(exc)\<close>.
\<close>

datatype exn =
    IBKRDataError string
  | IBKRConnectionError string
  | IBKRContractError string
  | IBKRNoDataError string
  | IBKREntitlementError string
  | IBKRAccountError string
  | IBKRTimeoutError string
  | ConnectionRefusedError string
  | TypeError string
  | OtherException string

fun exn_str :: "exn \<Rightarrow> string" where
  "exn_str (IBKRDataError m) = m"
| "exn_str (IBKRConnectionError m) = m"
| "exn_str (IBKRContractError m) = m"
| "exn_str (IBKRNoDataError m) = m"
| "exn_str (IBKREntitlementError m) = m"
| "exn_str (IBKRAccountError m) = m"
| "exn_str (IBKRTimeoutError m) = m"
| "exn_str (ConnectionRefusedError m) = m"
| "exn_str (TypeError m) = m"
| "exn_str (OtherException m) = m"

text \<open>\<open>isinstance(exc, C)\<close> for the classes that the handlers name.\<close>

fun isinstance_IBKRDataError :: "exn \<Rightarrow> bool" where
  "isinstance_IBKRDataError (ConnectionRefusedError m) = False"
| "isinstance_IBKRDataError (TypeError m) = False"
| "isinstance_IBKRDataError (OtherException m) = False"
| "isinstance_IBKRDataError e = True"

fun isinstance_IBKRConnectionError :: "exn \<Rightarrow> bool" where
  "isinstance_IBKRConnectionError (IBKRConnectionError m) = True"
| "isinstance_IBKRConnectionError e = False"

fun isinstance_IBKRContractError :: "exn \<Rightarrow> bool" where
  "isinstance_IBKRContractError (IBKRContractError m) = True"
| "isinstance_IBKRContractError e = False"

fun isinstance_IBKRNoDataError :: "exn \<Rightarrow> bool" where
  "isinstance_IBKRNoDataError (IBKRNoDataError m) = True"
| "isinstance_IBKRNoDataError e = False"

fun isinstance_IBKREntitlementError :: "exn \<Rightarrow> bool" where
  "isinstance_IBKREntitlementError (IBKREntitlementError m) = True"
| "isinstance_IBKREntitlementError e = False"

fun isinstance_ConnectionRefusedError :: "exn \<Rightarrow> bool" where
  "isinstance_ConnectionRefusedError (ConnectionRefusedError m) = True"
| "isinstance_ConnectionRefusedError e = False"


section \<open>Historical series (market\_data.py)\<close>

text \<open>
  An \<open>ib_async\<close> contract, as far as the code reads it: \<open>secType\<close> and \<open>right\<close>
  (an attribute that is missing or \<open>None\<close> is the empty string) and a description that
  stands for the other fields.
\<close>

record contract =
  secType :: string
  right :: string
  c_descr :: string

text \<open>
  What a call does outside the process is recorded as a trace of events, next to the cache
  directory.
\<close>

datatype event =
    EvCacheGet string
  | EvCachePut string
  | EvConnect
  | EvQualifyContracts
  | EvReqHistoricalData string string
  | EvReqMktData nat
  | EvSleep real
  | EvDisconnect

record world =
  w_fs :: filesystem
  w_trace :: "event list"

text \<open>
  A Python value read from a ticker: \<open>None\<close>, a finite float, NaN, an infinity, or a
  value that \<open>float()\<close> rejects.
\<close>

datatype pyval = PyNone | PyFloat real | PyNaN | PyInf | PyOther

text \<open>The fields of \<open>ticker.modelGreeks\<close> and of a ticker that \<open>fetch_snapshot\<close> reads.\<close>

record greeks =
  g_impliedVol :: pyval
  g_delta :: pyval
  g_gamma :: pyval
  g_theta :: pyval
  g_vega :: pyval

record ticker =
  t_bid :: pyval
  t_ask :: pyval
  t_last :: pyval
  t_volume :: pyval
  t_callVolume :: pyval
  t_putVolume :: pyval
  t_callOpenInterest :: pyval
  t_putOpenInterest :: pyval
  t_modelGreeks :: "greeks option"
  t_impliedVolatility :: pyval
  t_time :: "timestamp option"

text \<open>
  The collaborators of the fetch engine. The gateway answers a call as a function of the
  events so far: \<open>e_connect\<close> is \<open>IB.connect\<close> (\<open>None\<close> when it succeeds),
  \<open>e_qualifyContracts\<close>, \<open>e_reqHistoricalData\<close>, \<open>e_reqMktData\<close> (with the generic tick
  list) and \<open>e_sleep\<close> are the calls of that name on the session. \<open>e_resolve_contract\<close>
  is the contract resolver. \<open>e_normalize_bars\<close> is the pandas computation of
  \<open>_normalize_bars\<close> on the bars received, with the exception it may raise. \<open>e_md5\<close> is
  the digest of the cache key and \<open>e_clock\<close> the clock, read once for a request.
\<close>

record ('b, 'i) env =
  e_md5 :: "string \<Rightarrow> string"
  e_clock :: clock
  e_resolve_contract :: "string \<Rightarrow> string \<Rightarrow> 'i \<Rightarrow> exn + contract"
  e_connect :: "event list \<Rightarrow> exn option"
  e_qualifyContracts :: "event list \<Rightarrow> contract \<Rightarrow> exn + contract option list"
  e_reqHistoricalData :: "event list \<Rightarrow> contract \<Rightarrow> string \<Rightarrow> string \<Rightarrow> string \<Rightarrow> bool \<Rightarrow> exn + 'b list"
  e_normalize_bars :: "string \<Rightarrow> 'b list \<Rightarrow> string \<Rightarrow> pd_timestamp \<Rightarrow> pd_timestamp \<Rightarrow> exn + series"
  e_reqMktData :: "event list \<Rightarrow> contract \<Rightarrow> string \<Rightarrow> exn + ticker option"
  e_sleep :: "event list \<Rightarrow> real \<Rightarrow> exn option"

text \<open>\<open>_utcnow()\<close>: the clock as a naive UTC timestamp.\<close>

definition utcnow :: "clock \<Rightarrow> timestamp" where
  "utcnow c = to_timestamp (datetime_now c)"

text \<open>\<open>_connect_ib\<close>: every failure of \<open>IB.connect\<close> becomes an \<open>IBKRConnectionError\<close>.\<close>

definition connect_ib :: "('b, 'i) env \<Rightarrow> event list \<Rightarrow> (exn + unit) \<times> event list" where
  "connect_ib env tr =
     (case e_connect env tr of
        None \<Rightarrow> (Inr (), tr @ [EvConnect])
      | Some exc \<Rightarrow>
         if isinstance_ConnectionRefusedError exc
         then (Inl (IBKRConnectionError ''IB Gateway not running''), tr @ [EvConnect])
         else (Inl (IBKRConnectionError (''IBKR connect failed: '' @ exn_str exc)), tr @ [EvConnect]))"

text \<open>\<open>next((row for row in qualified if row is not None), None)\<close>.\<close>

fun first_not_None :: "'a option list \<Rightarrow> 'a option" where
  "first_not_None [] = None"
| "first_not_None (None # rows) = first_not_None rows"
| "first_not_None (Some row # rows) = Some row"

text \<open>The \<open>try\<close> block of \<open>_request_bars\<close>, on an open session.\<close>

definition request_bars_body ::
  "('b, 'i) env \<Rightarrow> contract \<Rightarrow> InstrumentProfile \<Rightarrow> string \<Rightarrow> pd_timestamp \<Rightarrow> pd_timestamp
     \<Rightarrow> event list \<Rightarrow> (exn + 'b list) \<times> event list" where
  "request_bars_body env c profile what_to_show start_ts end_ts tr =
     (case e_qualifyContracts env tr c of
        Inl exc \<Rightarrow> (Inl exc, tr @ [EvQualifyContracts])
      | Inr qualified \<Rightarrow>
         let tr1 = tr @ [EvQualifyContracts] in
         if qualified = [] then (Inl (IBKRContractError ''Unable to qualify IBKR contract''), tr1)
         else
           (case first_not_None qualified of
              None \<Rightarrow> (Inl (IBKRContractError ''Unable to qualify IBKR contract''), tr1)
            | Some qualified_contract \<Rightarrow>
               let duration_str = duration_for_request profile start_ts end_ts (utcnow (e_clock env));
                   tr2 = tr1 @ [EvReqHistoricalData what_to_show duration_str]
               in (case e_reqHistoricalData env tr1 qualified_contract duration_str
                          (bar_size profile) what_to_show (use_rth profile) of
                     Inl exc \<Rightarrow> (Inl exc, tr2)
                   | Inr bars \<Rightarrow>
                      if bars = [] then (Inl (IBKRNoDataError ''No historical bars returned''), tr2)
                      else (Inr bars, tr2))))"

text \<open>
  The handlers of \<open>_request_bars\<close>: an \<open>IBKRDataError\<close> is raised again, any other
  exception is classified by its text.
\<close>

definition classify_exception :: "exn \<Rightarrow> exn" where
  "classify_exception exc =
     (if isinstance_IBKRDataError exc then exc
      else
        let text = py_lower (exn_str exc) in
        if py_contains ''entitlement'' text \<or> py_contains ''market data permissions'' text
           \<or> py_contains ''permission'' text
        then IBKREntitlementError (exn_str exc)
        else if py_contains ''no security definition'' text \<or> py_contains ''unknown contract'' text
           \<or> py_contains ''includeexpired'' text
        then IBKRContractError (exn_str exc)
        else IBKRDataError (exn_str exc))"

text \<open>
  \<open>_request_bars\<close>: connect, run the body, disconnect in any case. A failed connect
  leaves before the \<open>try\<close>, so nothing is disconnected.
\<close>

definition request_bars ::
  "('b, 'i) env \<Rightarrow> contract \<Rightarrow> InstrumentProfile \<Rightarrow> string \<Rightarrow> pd_timestamp \<Rightarrow> pd_timestamp
     \<Rightarrow> world \<Rightarrow> (exn + 'b list) \<times> world" where
  "request_bars env c profile what_to_show start_ts end_ts w =
     (case connect_ib env (w_trace w) of
        (Inl exc, tr) \<Rightarrow> (Inl exc, w\<lparr>w_trace := tr\<rparr>)
      | (Inr ib, tr) \<Rightarrow>
         (case request_bars_body env c profile what_to_show start_ts end_ts tr of
            (Inl exc, tr') \<Rightarrow> (Inl (classify_exception exc), w\<lparr>w_trace := tr' @ [EvDisconnect]\<rparr>)
          | (Inr bars, tr') \<Rightarrow> (Inr bars, w\<lparr>w_trace := tr' @ [EvDisconnect]\<rparr>)))"

text \<open>
  A date argument of \<open>fetch_series\<close>: \<open>pd.Timestamp\<close> turns it into a timestamp,
  turns it into \<open>NaT\<close> (as for \<open>None\<close>), or raises.
\<close>

datatype date_arg = Parsable pd_timestamp | NaT | Unparsable

text \<open>
  \<open>start_ts > end_ts\<close>; pandas raises a \<open>TypeError\<close> when one side is timezone-aware
  and the other is not.
\<close>

fun pd_gt :: "pd_timestamp \<Rightarrow> pd_timestamp \<Rightarrow> exn + bool" where
  "pd_gt (Naive a) (Naive b) = Inr (ts_lt b a)"
| "pd_gt (Aware a la) (Aware b lb) = Inr (ts_lt b a)"
| "pd_gt a b = Inl (TypeError ''Cannot compare tz-naive and tz-aware timestamps'')"

text \<open>The first loop of \<open>fetch_series\<close>: the cache-read pass over the chain.\<close>

fun cache_read_pass ::
  "('b, 'i) env \<Rightarrow> string \<Rightarrow> InstrumentProfile \<Rightarrow> pd_timestamp \<Rightarrow> pd_timestamp \<Rightarrow> string list
     \<Rightarrow> world \<Rightarrow> series option \<times> world" where
  "cache_read_pass env symb profile start_ts end_ts [] w = (None, w)"
| "cache_read_pass env symb profile start_ts end_ts (candidate # chain) w =
     (case get_cached (e_md5 env) (e_clock env) (w_fs w) symb (instrument_type profile) candidate
             (bar_size profile) (use_rth profile) start_ts end_ts None of
        (cached, fs') \<Rightarrow>
          let w' = w\<lparr>w_fs := fs', w_trace := w_trace w @ [EvCacheGet candidate]\<rparr> in
          (case cached of
             None \<Rightarrow> cache_read_pass env symb profile start_ts end_ts chain w'
           | Some s \<Rightarrow>
              if \<not> series_empty s then (Some (s\<lparr>s_name := Some symb\<rparr>), w')
              else cache_read_pass env symb profile start_ts end_ts chain w'))"

text \<open>
  The \<open>try\<close> block of the second loop for one candidate: an exception, \<open>continue\<close> on an
  empty series (\<open>Inr None\<close>), or the series to return.
\<close>

definition fetch_attempt ::
  "('b, 'i) env \<Rightarrow> string \<Rightarrow> InstrumentProfile \<Rightarrow> contract \<Rightarrow> pd_timestamp \<Rightarrow> pd_timestamp \<Rightarrow> string
     \<Rightarrow> world \<Rightarrow> (exn + series option) \<times> world" where
  "fetch_attempt env symb profile c start_ts end_ts candidate w =
     (case request_bars env c profile candidate start_ts end_ts w of
        (Inl exc, w') \<Rightarrow> (Inl exc, w')
      | (Inr bars, w') \<Rightarrow>
         (case e_normalize_bars env symb bars (bar_size profile) start_ts end_ts of
            Inl exc \<Rightarrow> (Inl exc, w')
          | Inr s \<Rightarrow>
             if series_empty s then (Inr None, w')
             else
               (case put_cache (e_md5 env) (e_clock env) (w_fs w') s symb (instrument_type profile)
                       candidate (bar_size profile) (use_rth profile) start_ts end_ts of
                  (stored, fs') \<Rightarrow>
                    (Inr (Some s), w'\<lparr>w_fs := fs', w_trace := w_trace w' @ [EvCachePut candidate]\<rparr>))))"

text \<open>The second loop of \<open>fetch_series\<close> with its handlers, in the order of the source.\<close>

fun live_fetch_pass ::
  "('b, 'i) env \<Rightarrow> string \<Rightarrow> InstrumentProfile \<Rightarrow> contract \<Rightarrow> pd_timestamp \<Rightarrow> pd_timestamp
     \<Rightarrow> string list \<Rightarrow> world \<Rightarrow> series \<times> world" where
  "live_fetch_pass env symb profile c start_ts end_ts [] w = (empty_series, w)"
| "live_fetch_pass env symb profile c start_ts end_ts (candidate # chain) w =
     (case fetch_attempt env symb profile c start_ts end_ts candidate w of
        (Inr (Some s), w') \<Rightarrow> (s, w')
      | (Inr None, w') \<Rightarrow> live_fetch_pass env symb profile c start_ts end_ts chain w'
      | (Inl exc, w') \<Rightarrow>
          if isinstance_IBKRNoDataError exc
          then live_fetch_pass env symb profile c start_ts end_ts chain w'
          else if isinstance_IBKREntitlementError exc
          then live_fetch_pass env symb profile c start_ts end_ts chain w'
          else if isinstance_IBKRContractError exc then (empty_series, w')
          else if isinstance_IBKRConnectionError exc then (empty_series, w')
          else live_fetch_pass env symb profile c start_ts end_ts chain w')"

text \<open>\<open>profile or get_profile(instrument_type)\<close>; \<open>None\<close> when the lookup raises.\<close>

definition resolved_profile_of :: "InstrumentProfile option \<Rightarrow> string \<Rightarrow> InstrumentProfile option" where
  "resolved_profile_of profile itype = (case profile of Some p \<Rightarrow> Some p | None \<Rightarrow> get_profile itype)"

text \<open>
  \<open>[what_to_show.strip().upper()] if what_to_show else list(profile.what_to_show_chain)\<close>.
\<close>

definition candidate_chain :: "InstrumentProfile \<Rightarrow> string option \<Rightarrow> string list" where
  "candidate_chain resolved_profile what_to_show =
     (case what_to_show of
        None \<Rightarrow> what_to_show_chain resolved_profile
      | Some wts \<Rightarrow>
         if wts \<noteq> [] then [py_upper (py_strip wts)] else what_to_show_chain resolved_profile)"

text \<open>
  \<open>fetch_series\<close>. The result is the series returned or the exception that leaves the
  function, with the world after the call. \<open>profile\<close> and \<open>what_to_show\<close> are the optional
  arguments. A comparison with \<open>NaT\<close> is false, so a request with a \<open>NaT\<close> date goes
  on to the first \<open>get_cached\<close>, where \<open>cache_key\<close> raises on \<open>NaT.date()\<close> before the
  cache directory is touched.
\<close>

definition fetch_series ::
  "('b, 'i) env \<Rightarrow> string \<Rightarrow> string \<Rightarrow> date_arg \<Rightarrow> date_arg \<Rightarrow> InstrumentProfile option
     \<Rightarrow> string option \<Rightarrow> 'i \<Rightarrow> world \<Rightarrow> (exn + series) \<times> world" where
  "fetch_series env symbol itype start_date end_date profile what_to_show contract_identity w =
     (let symb = py_upper (py_strip symbol) in
      if symb = [] then (Inr empty_series, w)
      else if start_date = Unparsable \<or> end_date = Unparsable then (Inr empty_series, w)
      else
        (case (case (start_date, end_date) of
                 (Parsable start_ts, Parsable end_ts) \<Rightarrow> pd_gt start_ts end_ts
               | _ \<Rightarrow> Inr False) of
           Inl exc \<Rightarrow> (Inl exc, w)
         | Inr True \<Rightarrow> (Inr empty_series, w)
         | Inr False \<Rightarrow>
            (case resolved_profile_of profile itype of
               None \<Rightarrow> (Inr empty_series, w)
             | Some resolved_profile \<Rightarrow>
                let chain = candidate_chain resolved_profile what_to_show in
                if chain = [] then (Inr empty_series, w)
                else
                  (case e_resolve_contract env symb (instrument_type resolved_profile)
                          contract_identity of
                     Inl exc \<Rightarrow>
                       if isinstance_IBKRContractError exc then (Inr empty_series, w)
                       else (Inl exc, w)
                   | Inr c \<Rightarrow>
                      (case (start_date, end_date) of
                         (Parsable start_ts, Parsable end_ts) \<Rightarrow>
                           (case cache_read_pass env symb resolved_profile start_ts end_ts chain w of
                              (Some cached, w') \<Rightarrow> (Inr cached, w')
                            | (None, w') \<Rightarrow>
                               (case live_fetch_pass env symb resolved_profile c start_ts end_ts
                                       chain w' of
                                  (s, w'') \<Rightarrow> (Inr s, w'')))
                       | _ \<Rightarrow> (Inl (OtherException ''NaTType does not support date''), w))))))"

section \<open>Snapshots (market\_data.py)\<close>

text \<open>A value of a result dict: \<open>None\<close>, a float, an int or a string.\<close>

datatype json = JNone | JFloat real | JInt int | JStr string

text \<open>
  \<open>_as_float\<close>: \<open>None\<close> for \<open>None\<close>, for a value that \<open>float()\<close> rejects, for NaN and
  for an infinity.
\<close>

definition as_float :: "pyval \<Rightarrow> real option" where
  "as_float v = (case v of PyFloat x \<Rightarrow> Some x | _ \<Rightarrow> None)"

text \<open>\<open>int(x)\<close> of a finite float: truncation toward zero.\<close>

definition int_of_float :: "real \<Rightarrow> int" where
  "int_of_float x = (if 0 \<le> x then \<lfloor>x\<rfloor> else \<lceil>x\<rceil>)"

definition as_int :: "pyval \<Rightarrow> int option" where
  "as_int v = (case as_float v of None \<Rightarrow> None | Some out \<Rightarrow> Some (int_of_float out))"

text \<open>
  \<open>_value_for_option_side\<close>, given the values of the call-side and the put-side
  attribute of the ticker.
\<close>

definition value_for_option_side :: "string \<Rightarrow> pyval \<Rightarrow> pyval \<Rightarrow> int option" where
  "value_for_option_side rght call_value put_value =
     (let prefer_put = (rght = ''P'');
          primary = (if prefer_put then put_value else call_value);
          secondary = (if prefer_put then call_value else put_value)
      in case as_int primary of
           Some primary_value \<Rightarrow> Some primary_value
         | None \<Rightarrow> as_int secondary)"

definition json_float :: "real option \<Rightarrow> json" where
  "json_float v = (case v of None \<Rightarrow> JNone | Some x \<Rightarrow> JFloat x)"

definition json_int :: "int option \<Rightarrow> json" where
  "json_int v = (case v of None \<Rightarrow> JNone | Some n \<Rightarrow> JInt n)"

text \<open>A result dict with the single field \<open>error\<close>.\<close>

definition error_entry :: "string \<Rightarrow> (string \<times> json) list" where
  "error_entry msg = [(''error'', JStr msg)]"

text \<open>\<open>str(exc) or "..."\<close>.\<close>

definition str_or :: "exn \<Rightarrow> string \<Rightarrow> string" where
  "str_or exc dflt = (if exn_str exc = [] then dflt else exn_str exc)"

text \<open>
  The first loop of \<open>fetch_snapshot\<close>, over \<open>enumerate(contracts)\<close>: it fills
  \<open>pre_errors\<close> and \<open>qualified_by_index\<close>, the latter in insertion order.
\<close>

fun qualify_loop ::
  "('b, 'i) env \<Rightarrow> (nat \<times> contract) list
     \<Rightarrow> (nat \<rightharpoonup> string) \<times> (nat \<times> contract) list \<times> event list
     \<Rightarrow> (nat \<rightharpoonup> string) \<times> (nat \<times> contract) list \<times> event list" where
  "qualify_loop env [] st = st"
| "qualify_loop env ((idx, c) # rest) (pre_errors, qualified_by_index, tr) =
     (case e_qualifyContracts env tr c of
        Inl exc \<Rightarrow>
          qualify_loop env rest
            (pre_errors(idx \<mapsto> str_or exc ''qualification failed''), qualified_by_index,
             tr @ [EvQualifyContracts])
      | Inr qualified \<Rightarrow>
          if qualified = []
          then qualify_loop env rest
                 (pre_errors(idx \<mapsto> ''unable to qualify contract''), qualified_by_index,
                  tr @ [EvQualifyContracts])
          else
            (case first_not_None qualified of
               None \<Rightarrow>
                 qualify_loop env rest
                   (pre_errors(idx \<mapsto> ''unable to qualify contract''), qualified_by_index,
                    tr @ [EvQualifyContracts])
             | Some qualified_contract \<Rightarrow>
                 qualify_loop env rest
                   (pre_errors, qualified_by_index @ [(idx, qualified_contract)],
                    tr @ [EvQualifyContracts])))"

text \<open>The second loop, over the items of \<open>qualified_by_index\<close>.\<close>

fun request_loop ::
  "('b, 'i) env \<Rightarrow> (nat \<times> contract) list
     \<Rightarrow> (nat \<rightharpoonup> string) \<times> (nat \<rightharpoonup> ticker option) \<times> event list
     \<Rightarrow> (nat \<rightharpoonup> string) \<times> (nat \<rightharpoonup> ticker option) \<times> event list" where
  "request_loop env [] st = st"
| "request_loop env ((idx, qualified_contract) # rest) (pre_errors, tickers_by_index, tr) =
     (let sec_type = py_upper (secType qualified_contract);
          generic_ticks = (if sec_type = ''OPT'' then ''100,101,106'' else [])
      in case e_reqMktData env tr qualified_contract generic_ticks of
           Inl exc \<Rightarrow>
             request_loop env rest
               (pre_errors(idx \<mapsto> str_or exc ''snapshot request failed''), tickers_by_index,
                tr @ [EvReqMktData idx])
         | Inr tk \<Rightarrow>
             request_loop env rest
               (pre_errors, tickers_by_index(idx \<mapsto> tk), tr @ [EvReqMktData idx]))"

text \<open>The body of the last loop: the result dict for one contract.\<close>

definition snapshot_entry ::
  "(nat \<rightharpoonup> string) \<Rightarrow> (nat \<times> contract) list \<Rightarrow> (nat \<rightharpoonup> ticker option)
     \<Rightarrow> nat \<times> contract \<Rightarrow> (string \<times> json) list" where
  "snapshot_entry pre_errors qualified_by_index tickers_by_index ic =
     (case ic of (idx, c) \<Rightarrow>
        (case pre_errors idx of
           Some msg \<Rightarrow> error_entry msg
         | None \<Rightarrow>
            (case (case tickers_by_index idx of Some tk \<Rightarrow> tk | None \<Rightarrow> None) of
               None \<Rightarrow> error_entry ''timeout''
             | Some tk \<Rightarrow>
                let bid = as_float (t_bid tk);
                    ask = as_float (t_ask tk);
                    last = as_float (t_last tk);
                    mid = (case (bid, ask) of
                             (Some b, Some a) \<Rightarrow> Some ((b + a) / 2)
                           | _ \<Rightarrow> None);
                    contract_for_fields =
                      (case map_of qualified_by_index idx of Some qc \<Rightarrow> qc | None \<Rightarrow> c);
                    sec_type = py_upper (secType contract_for_fields);
                    rght = py_upper (right contract_for_fields);
                    volume =
                      (if sec_type = ''OPT''
                       then value_for_option_side rght (t_callVolume tk) (t_putVolume tk)
                       else as_int (t_volume tk));
                    open_interest =
                      (if sec_type = ''OPT''
                       then value_for_option_side rght (t_callOpenInterest tk) (t_putOpenInterest tk)
                       else None);
                    model_greeks = t_modelGreeks tk;
                    greek = (\<lambda>field. case model_greeks of
                               None \<Rightarrow> None
                             | Some g \<Rightarrow> as_float (field g));
                    implied_vol = greek g_impliedVol;
                    implied_vol = (case implied_vol of
                                     None \<Rightarrow> as_float (t_impliedVolatility tk)
                                   | Some v \<Rightarrow> Some v);
                    delta = greek g_delta;
                    gamma = greek g_gamma;
                    theta = greek g_theta;
                    vega = greek g_vega;
                    has_data =
                      (bid \<noteq> None \<or> ask \<noteq> None \<or> last \<noteq> None \<or> volume \<noteq> None
                       \<or> open_interest \<noteq> None \<or> implied_vol \<noteq> None \<or> delta \<noteq> None
                       \<or> gamma \<noteq> None \<or> theta \<noteq> None \<or> vega \<noteq> None)
                in if \<not> has_data \<and> t_time tk = None then error_entry ''timeout''
                   else
                     [(''bid'', json_float bid),
                      (''ask'', json_float ask),
                      (''last'', json_float last),
                      (''mid'', json_float mid),
                      (''volume'', json_int volume),
                      (''open_interest'', json_int open_interest),
                      (''implied_vol'', json_float implied_vol),
                      (''delta'', json_float delta),
                      (''gamma'', json_float gamma),
                      (''theta'', json_float theta),
                      (''vega'', json_float vega)])))"

text \<open>
  \<open>fetch_snapshot\<close>: the result list and the events. A failed connect leaves no session
  to disconnect; an exception of \<open>ib.sleep\<close> is the other exception that reaches the
  outer handlers.
\<close>

definition fetch_snapshot ::
  "('b, 'i) env \<Rightarrow> contract list \<Rightarrow> real \<Rightarrow> event list \<Rightarrow> (string \<times> json) list list \<times> event list" where
  "fetch_snapshot env contracts timeout tr =
     (if contracts = [] then ([], tr)
      else
        let timeout_seconds = max 0 timeout in
        (case connect_ib env tr of
           (Inl exc, tr0) \<Rightarrow> (map (\<lambda>c. error_entry (exn_str exc)) contracts, tr0)
         | (Inr ib, tr0) \<Rightarrow>
            (case qualify_loop env (enumerate 0 contracts) (Map.empty, [], tr0) of
               (pre_errors, qualified_by_index, tr1) \<Rightarrow>
                 (case request_loop env qualified_by_index (pre_errors, Map.empty, tr1) of
                    (pre_errors, tickers_by_index, tr2) \<Rightarrow>
                      (case (if timeout_seconds > 0 then e_sleep env tr2 timeout_seconds else None) of
                         Some exc \<Rightarrow>
                           (map (\<lambda>c. error_entry
                                   (if isinstance_IBKRConnectionError exc then exn_str exc
                                    else str_or exc ''snapshot request failed'')) contracts,
                            tr2 @ [EvSleep timeout_seconds, EvDisconnect])
                       | None \<Rightarrow>
                           (map (snapshot_entry pre_errors qualified_by_index tickers_by_index)
                              (enumerate 0 contracts),
                            tr2 @ (if timeout_seconds > 0 then [EvSleep timeout_seconds] else [])
                                @ [EvDisconnect]))))))"

(* spec-level *)


section \<open>Connection manager (connection.py)\<close>

text \<open>
  The session object held by the manager, as far as the manager reads it: whether it is
  connected and the accounts it reports.
\<close>

record ib_session =
  ib_connected :: bool
  ib_accounts :: "string list"

text \<open>The fields of \<open>IBKRConnectionManager\<close> that the connect and reconnect paths use.\<close>

record manager =
  m_ib :: "ib_session option"
  m_managed_accounts :: "string list"
  m_reconnect_delay :: nat
  m_max_reconnect_attempts :: nat
  m_reconnecting :: bool
  m_manual_disconnect :: bool

text \<open>The state after \<open>__init__\<close>.\<close>

definition init_manager :: manager where
  "init_manager =
     \<lparr>m_ib = None, m_managed_accounts = [], m_reconnect_delay = 5, m_max_reconnect_attempts = 3,
      m_reconnecting = False, m_manual_disconnect = False\<rparr>"

text \<open>
  The gateway answers the calls of \<open>IB.connect\<close> in turn: the outcome of a call is a
  function of the number of calls made before it, an exception or the managed accounts of
  the new session. The calls made so far are counted in the trace.
\<close>

definition connect_attempts :: "event list \<Rightarrow> nat" where
  "connect_attempts tr = length (filter (\<lambda>ev. ev = EvConnect) tr)"

text \<open>
  \<open>connect\<close>: the existing session when it is connected; otherwise one call of
  \<open>IB.connect\<close>. When the call fails the new session is torn down, the exception is
  raised again and the manager is unchanged.
\<close>

definition connect ::
  "(nat \<Rightarrow> exn + string list) \<Rightarrow> manager \<times> event list \<Rightarrow> (exn + ib_session) \<times> manager \<times> event list" where
  "connect gw st =
     (case st of (m, tr) \<Rightarrow>
        (case (case m_ib m of Some ib \<Rightarrow> if ib_connected ib then Some ib else None | None \<Rightarrow> None) of
           Some ib \<Rightarrow> (Inr ib, m, tr)
         | None \<Rightarrow>
            (case gw (connect_attempts tr) of
               Inl exc \<Rightarrow> (Inl exc, m, tr @ [EvConnect, EvDisconnect])
             | Inr accounts \<Rightarrow>
                let ib = \<lparr>ib_connected = True, ib_accounts = accounts\<rparr>
                in (Inr ib, m\<lparr>m_ib := Some ib, m_managed_accounts := accounts\<rparr>, tr @ [EvConnect]))))"

text \<open>
  \<open>_on_disconnect\<close>: the new state, and whether a reconnect thread was started.
\<close>

definition on_disconnect :: "manager \<Rightarrow> manager \<times> bool" where
  "on_disconnect m =
     (if m_manual_disconnect m then (m, False)
      else
        let m = m\<lparr>m_ib := None, m_managed_accounts := []\<rparr> in
        if \<not> m_reconnecting m then (m\<lparr>m_reconnecting := True\<rparr>, True) else (m, False))"

text \<open>The \<open>for\<close> loop of \<open>_reconnect\<close> over the attempt numbers that are left.\<close>

fun reconnect_loop ::
  "(nat \<Rightarrow> exn + string list) \<Rightarrow> nat list \<Rightarrow> manager \<times> event list \<Rightarrow> manager \<times> event list" where
  "reconnect_loop gw [] st = st"
| "reconnect_loop gw (attempt # attempts) st =
     (case st of (m, tr) \<Rightarrow>
        let delay = m_reconnect_delay m * attempt in
        (case connect gw (m, tr @ [EvSleep (real delay)]) of
           (Inr ib, st') \<Rightarrow> st'
         | (Inl exc, st') \<Rightarrow> reconnect_loop gw attempts st'))"

text \<open>\<open>_reconnect\<close>: the loop over \<open>range(1, max + 1)\<close>, then the \<open>finally\<close> clause.\<close>

definition reconnect :: "(nat \<Rightarrow> exn + string list) \<Rightarrow> manager \<times> event list \<Rightarrow> manager \<times> event list" where
  "reconnect gw st =
     (case st of (m, tr) \<Rightarrow>
        (case reconnect_loop gw [1 ..< m_max_reconnect_attempts m + 1] (m, tr) of
           (m', tr') \<Rightarrow> (m'\<lparr>m_reconnecting := False\<rparr>, tr')))"

text \<open>
  An unsolicited disconnect: the callback, followed by the reconnect thread when the
  callback started one. The thread is taken to run to its end with no other call on the
  manager in between.
\<close>

definition unsolicited_disconnect ::
  "(nat \<Rightarrow> exn + string list) \<Rightarrow> manager \<times> event list \<Rightarrow> manager \<times> event list" where
  "unsolicited_disconnect gw st =
     (case st of (m, tr) \<Rightarrow>
        (case on_disconnect m of
           (m', True) \<Rightarrow> reconnect gw (m', tr)
         | (m', False) \<Rightarrow> (m', tr)))"

(* spec-level *)


section \<open>Specification-level definitions\<close>

text \<open>
  The number of years the specification asks for: one year when the anchor date is on or
  before the start date; otherwise the difference of the calendar years, plus one when the
  anchor date lies strictly after the anniversary of the start date in the anchor's year,
  and at least one.
\<close>

definition spec_duration_years :: "date \<Rightarrow> date \<Rightarrow> int" where
  "spec_duration_years start anchor =
     (if date_le anchor start then 1
      else
        let y = d_year anchor - d_year start;
            y = (if date_lt (date_add_years start y) anchor then y + 1 else y)
        in max 1 y)"

text \<open>The calendar month of a date.\<close>

definition month_key :: "date \<Rightarrow> int \<times> nat" where
  "month_key d = (d_year d, d_month d)"

text \<open>
  The window from \<open>start\<close> to \<open>end\<close> (with \<open>start\<close> not after \<open>end\<close>) overlaps the
  calendar month that contains \<open>now\<close>: the month of \<open>now\<close> lies between the month of the
  start and the month of the end.
\<close>

definition spec_overlaps_current_month :: "timestamp \<Rightarrow> timestamp \<Rightarrow> timestamp \<Rightarrow> bool" where
  "spec_overlaps_current_month start_ts end_ts now =
     (month_key (ts_date start_ts) \<le> month_key (ts_date now) \<and>
      month_key (ts_date now) \<le> month_key (ts_date end_ts))"

text \<open>
  The non-null, de-duplicated, time-sorted projection of a series: the rows with a value and
  a valid timestamp, ordered by time, the last row kept for each timestamp.
\<close>

definition row_key :: "timestamp option \<times> cell \<Rightarrow> (int \<times> nat \<times> nat) \<times> nat" where
  "row_key r = (case fst r of Some t \<Rightarrow> ts_key t | None \<Rightarrow> ((0, 0, 0), 0))"

fun dedup_keep_last :: "(timestamp option \<times> cell) list \<Rightarrow> (timestamp option \<times> cell) list" where
  "dedup_keep_last [] = []"
| "dedup_keep_last [r] = [r]"
| "dedup_keep_last (r # r' # rs) =
     (if row_key r = row_key r' then dedup_keep_last (r' # rs) else r # dedup_keep_last (r' # rs))"

definition spec_projection :: "(timestamp option \<times> cell) list \<Rightarrow> (timestamp option \<times> cell) list" where
  "spec_projection rows =
     dedup_keep_last (sort_key row_key (filter (\<lambda>r. snd r \<noteq> None \<and> fst r \<noteq> None) rows))"


text \<open>
  A request passes input validation, profile lookup and contract resolution: the symbol is
  not empty once trimmed, both dates parse, the start is not after the end, a profile is
  found, the chain is not empty and the resolver returns a contract.
\<close>

definition request_accepted ::
  "('b, 'i) env \<Rightarrow> string \<Rightarrow> string \<Rightarrow> date_arg \<Rightarrow> date_arg \<Rightarrow> InstrumentProfile option
     \<Rightarrow> string option \<Rightarrow> 'i
     \<Rightarrow> string \<Rightarrow> pd_timestamp \<Rightarrow> pd_timestamp \<Rightarrow> InstrumentProfile \<Rightarrow> contract \<Rightarrow> bool" where
  "request_accepted env symbol itype start_date end_date profile what_to_show contract_identity
       symb start_ts end_ts resolved_profile c =
     (py_upper (py_strip symbol) = symb \<and> symb \<noteq> [] \<and>
      start_date = Parsable start_ts \<and> end_date = Parsable end_ts \<and>
      pd_gt start_ts end_ts = Inr False \<and>
      resolved_profile_of profile itype = Some resolved_profile \<and>
      candidate_chain resolved_profile what_to_show \<noteq> [] \<and>
      e_resolve_contract env symb (instrument_type resolved_profile) contract_identity = Inr c)"

text \<open>
  A candidate has a fresh non-empty cache hit on a cache directory: \<open>get_cached\<close> returns
  a series for it, and the series is not empty.
\<close>

definition cache_hit ::
  "('b, 'i) env \<Rightarrow> string \<Rightarrow> InstrumentProfile \<Rightarrow> pd_timestamp \<Rightarrow> pd_timestamp \<Rightarrow> filesystem
     \<Rightarrow> string \<Rightarrow> series option" where
  "cache_hit env symb profile start_ts end_ts fs candidate =
     (case fst (get_cached (e_md5 env) (e_clock env) fs symb (instrument_type profile) candidate
                  (bar_size profile) (use_rth profile) start_ts end_ts None) of
        None \<Rightarrow> None
      | Some s \<Rightarrow> if series_empty s then None else Some s)"

text \<open>The events of the cache-read pass.\<close>

fun is_cache_get :: "event \<Rightarrow> bool" where
  "is_cache_get (EvCacheGet c) = True"
| "is_cache_get ev = False"


text \<open>
  The events of failed attempts with linear backoff: for each attempt number \<open>k\<close>, a
  sleep of \<open>base_delay * k\<close> seconds, the connect call and the teardown of the failed
  session.
\<close>

definition backoff_trace :: "nat \<Rightarrow> nat list \<Rightarrow> event list" where
  "backoff_trace base_delay attempts =
     concat (map (\<lambda>k. [EvSleep (real (base_delay * k)), EvConnect, EvDisconnect]) attempts)"






section \<open>Example values\<close>

text \<open>
  Concrete inputs on which the properties below are evaluated: a clock at 15 January 2024,
  10:00 UTC, cache files for a futures and an FX request, a gateway that has no MIDPOINT
  bars, no permission for the other variants and refuses the third session, and a manager
  connected with one account.
\<close>

definition ex_ts :: "int \<Rightarrow> nat \<Rightarrow> nat \<Rightarrow> nat \<Rightarrow> timestamp" where
  "ex_ts y m d secs = \<lparr>ts_date = \<lparr>d_year = y, d_month = m, d_day = d\<rparr>, ts_time = secs * 1000000000\<rparr>"

definition ex_clock :: clock where
  "ex_clock = \<lparr>time_time = 1705312800,
               datetime_now = Aware (ex_ts 2024 1 15 36000) (ex_ts 2024 1 15 36000)\<rparr>"

definition ex_frame :: frame where
  "ex_frame = \<lparr>f_index = [Some (ex_ts 2024 1 31 57600)], f_columns = [(''value'', [Some 4510])]\<rparr>"

definition ex_file :: "real \<Rightarrow> file_content \<Rightarrow> cache_file" where
  "ex_file age_seconds content = \<lparr>f_mtime = time_time ex_clock - age_seconds, f_content = content\<rparr>"

definition ex_path :: "pd_timestamp \<Rightarrow> pd_timestamp \<Rightarrow> string" where
  "ex_path start_date end_date = cache_path id ''ES'' ''futures'' ''TRADES'' ''1 day'' True start_date end_date"



definition ex_unsorted :: series where
  "ex_unsorted = \<lparr>s_name = Some ''ES'', s_rows = [(Some (ex_ts 2023 6 12 0), Some 4525), (Some (ex_ts 2023 6 11 0), Some 4510)]\<rparr>"

definition ex_ticker :: ticker where
  "ex_ticker =
     \<lparr>t_bid = PyFloat 4510, t_ask = PyFloat 4511, t_last = PyNaN, t_volume = PyFloat 1250,
      t_callVolume = PyNaN, t_putVolume = PyNaN, t_callOpenInterest = PyNaN,
      t_putOpenInterest = PyNaN, t_modelGreeks = None, t_impliedVolatility = PyNaN,
      t_time = Some (ex_ts 2024 1 15 36000)\<rparr>"

definition ex_env :: "(nat, unit) env" where
  "ex_env =
     \<lparr>e_md5 = (\<lambda>key. key),
      e_clock = ex_clock,
      e_resolve_contract = (\<lambda>symb itype identity. Inr \<lparr>secType = ''CASH'', right = [], c_descr = symb\<rparr>),
      e_connect = (\<lambda>tr. if 2 \<le> length (filter (\<lambda>ev. ev = EvConnect) tr)
                          then Some (ConnectionRefusedError ''Connection refused'') else None),
      e_qualifyContracts = (\<lambda>tr c. Inr [Some c]),
      e_reqHistoricalData = (\<lambda>tr c duration_str bsize what_to_show rth.
          if what_to_show = ''MIDPOINT'' then Inr []
          else Inl (OtherException ''No market data permissions for IDEALPRO FOREX'')),
      e_normalize_bars = (\<lambda>symb bars bsize start_ts end_ts. Inr empty_series),
      e_reqMktData = (\<lambda>tr c generic_ticks. Inr (Some ex_ticker)),
      e_sleep = (\<lambda>tr seconds. None)\<rparr>"

definition ex_fx_profile :: InstrumentProfile where
  "ex_fx_profile = \<lparr>instrument_type = ''fx'', what_to_show_chain = [''MIDPOINT'', ''BID'', ''ASK''],
        bar_size = ''1 day'', use_rth = False, duration = ''2 Y''\<rparr>"

definition ex_fx_contract :: contract where
  "ex_fx_contract = \<lparr>secType = ''CASH'', right = [], c_descr = ''EURUSD''\<rparr>"

definition ex_start :: pd_timestamp where "ex_start = Naive (ex_ts 2023 6 5 0)"

definition ex_end :: pd_timestamp where "ex_end = Naive (ex_ts 2023 6 30 0)"

definition ex_fx_path :: "string \<Rightarrow> string" where
  "ex_fx_path candidate = cache_path (\<lambda>key. key) ''EURUSD'' ''fx'' candidate ''1 day'' False ex_start ex_end"

definition ex_world_bid :: world where
  "ex_world_bid = \<lparr>w_fs = [ex_fx_path ''BID'' \<mapsto> ex_file 60 (Parquet ex_frame)], w_trace = []\<rparr>"

definition ex_world_empty :: world where
  "ex_world_empty = \<lparr>w_fs = Map.empty, w_trace = []\<rparr>"

definition ex_world_after_midpoint :: world where
  "ex_world_after_midpoint =
     \<lparr>w_fs = Map.empty,
      w_trace = [EvConnect, EvQualifyContracts, EvReqHistoricalData ''MIDPOINT'' ''1 Y'', EvDisconnect]\<rparr>"

definition ex_world_after_bid :: world where
  "ex_world_after_bid =
     \<lparr>w_fs = Map.empty,
      w_trace = [EvConnect, EvQualifyContracts, EvReqHistoricalData ''MIDPOINT'' ''1 Y'', EvDisconnect,
                 EvConnect, EvQualifyContracts, EvReqHistoricalData ''BID'' ''1 Y'', EvDisconnect]\<rparr>"


definition ex_connected_manager :: manager where
  "ex_connected_manager =
     init_manager\<lparr>m_ib := Some \<lparr>ib_connected = True, ib_accounts = [''DU1234567'']\<rparr>,
                  m_managed_accounts := [''DU1234567'']\<rparr>"

definition ex_gateway_down :: "nat \<Rightarrow> exn + string list" where
  "ex_gateway_down n = Inl (ConnectionRefusedError ''Connect call failed'')"

definition ex_gateway_back :: "nat \<Rightarrow> exn + string list" where
  "ex_gateway_back n = (if n = 1 then Inr [''DU1234567''] else Inl (ConnectionRefusedError ''Connect call failed''))"


definition ex_unknown_contract :: contract where
  "ex_unknown_contract = \<lparr>secType = ''OPT'', right = ''P'', c_descr = ''UNKNOWN''\<rparr>"

definition ex_snapshot_env :: "(nat, unit) env" where
  "ex_snapshot_env =
     ex_env\<lparr>e_connect := (\<lambda>tr. None),
            e_qualifyContracts := (\<lambda>tr c. if c_descr c = ''UNKNOWN'' then Inr [] else Inr [Some c])\<rparr>"


section \<open>Duration strings: verified properties\<close>

lemma str_int_1: "str_int 1 = ''1''"
  by (simp add: str_int_def str_nat.simps digit_char_def)

lemma compute_duration_str_spec:
  "compute_duration_str s e = str_int (spec_duration_years (pd_date s) (pd_date e)) @ '' Y''"
  by (simp add: compute_duration_str_def spec_duration_years_def Let_def str_int_1)

lemma spec_duration_years_ge1: "1 \<le> spec_duration_years s a"
  by (simp add: spec_duration_years_def Let_def)

text \<open>The requested number of years always reaches from the start date to the anchor.\<close>

lemma duration_covers_window:
  assumes "valid_date s" "date_lt s a"
  shows "date_le a (date_add_years s (spec_duration_years s a))"
  using assms
  by (auto simp: spec_duration_years_def Let_def date_le_def date_lt_def date_key_def
      date_add_years_def valid_date_def max_def min_def less_prod_def less_eq_prod_def
      split: if_splits)

text \<open>
  Claim C6. For every start and end date, the duration string sent to the gateway is
  \<open>max(1, y)\<close> years, where \<open>y\<close> is the difference of the calendar years of the start
  date and the anchor date, plus one when the anchor date is strictly after the \<open>y\<close>-year
  anniversary of the start date. The anchor is now for a futures profile and the requested
  end date for every other instrument class; an anchor on or before the start date gives
  one year.
\<close>

theorem duration_for_request_spec:
  "duration_for_request profile start_ts end_ts now =
     str_int (spec_duration_years (pd_date start_ts)
        (if instrument_type profile = ''futures'' then ts_date now else pd_date end_ts)) @ '' Y''"
  by (simp add: duration_for_request_def compute_duration_str_spec)

theorem duration_for_request_spec_witness:
  "duration_for_request
     \<lparr>instrument_type = ''fx'', what_to_show_chain = [''MIDPOINT'', ''BID'', ''ASK''],
        bar_size = ''1 day'', use_rth = False, duration = ''2 Y''\<rparr>
     (Naive \<lparr>ts_date = \<lparr>d_year = 2020, d_month = 2, d_day = 29\<rparr>, ts_time = 0\<rparr>)
     (Naive \<lparr>ts_date = \<lparr>d_year = 2024, d_month = 3, d_day = 1\<rparr>, ts_time = 0\<rparr>)
     \<lparr>ts_date = \<lparr>d_year = 2030, d_month = 3, d_day = 1\<rparr>, ts_time = 0\<rparr> = ''5 Y''"
  using duration_for_request_spec [of
     "\<lparr>instrument_type = ''fx'', what_to_show_chain = [''MIDPOINT'', ''BID'', ''ASK''],
        bar_size = ''1 day'', use_rth = False, duration = ''2 Y''\<rparr>"
     "Naive \<lparr>ts_date = \<lparr>d_year = 2020, d_month = 2, d_day = 29\<rparr>, ts_time = 0\<rparr>"
     "Naive \<lparr>ts_date = \<lparr>d_year = 2024, d_month = 3, d_day = 1\<rparr>, ts_time = 0\<rparr>"
     "\<lparr>ts_date = \<lparr>d_year = 2030, d_month = 3, d_day = 1\<rparr>, ts_time = 0\<rparr>"]
  by (simp add: spec_duration_years_def date_le_def date_lt_def date_key_def date_add_years_def
      days_in_month_def is_leap_def str_int_def str_nat.simps digit_char_def less_prod_def
      less_eq_prod_def)


section \<open>Cache keys: verified properties\<close>

lemma isspace_upper_char: "py_isspace (py_upper_char c) = py_isspace c"
  by (auto simp: py_upper_char_def py_isspace_def ascii_lowercase_def ascii_uppercase_def split: option.splits if_splits)

lemma dropWhile_isspace_upper:
  "dropWhile py_isspace (map py_upper_char xs) = map py_upper_char (dropWhile py_isspace xs)"
  by (induction xs) (simp_all add: isspace_upper_char)

lemma strip_upper_commute: "py_strip (py_upper s) = py_upper (py_strip s)"
proof -
  have "dropWhile py_isspace (rev (map py_upper_char (dropWhile py_isspace s)))
      = map py_upper_char (dropWhile py_isspace (rev (dropWhile py_isspace s)))"
    using dropWhile_isspace_upper [of "rev (dropWhile py_isspace s)"] by (simp add: rev_map)
  then show ?thesis
    by (simp add: py_strip_def py_upper_def dropWhile_isspace_upper rev_map)
qed

lemma strip_pad_right:
  assumes "list_all py_isspace r"
  shows "dropWhile py_isspace (rev (dropWhile py_isspace (s @ r))) = dropWhile py_isspace (rev (dropWhile py_isspace s))"
proof (cases "list_all py_isspace s")
  case True
  then have "\<forall>x\<in>set (s @ r). py_isspace x" "\<forall>x\<in>set s. py_isspace x"
    using assms by (auto simp: list_all_iff)
  then have "dropWhile py_isspace (s @ r) = []" "dropWhile py_isspace s = []"
    unfolding dropWhile_eq_Nil_conv by blast+
  then show ?thesis by (simp only:)
next
  case False
  then obtain x where x: "x \<in> set s" "\<not> py_isspace x" by (auto simp: list_all_iff)
  then have "dropWhile py_isspace (s @ r) = dropWhile py_isspace s @ r"
    by (rule dropWhile_append1)
  moreover have "dropWhile py_isspace (rev r @ ys) = dropWhile py_isspace ys" for ys
    using assms by (intro dropWhile_append2) (auto simp: list_all_iff)
  ultimately show ?thesis by simp
qed

lemma strip_padded:
  assumes "list_all py_isspace l" "list_all py_isspace r"
  shows "py_strip (l @ s @ r) = py_strip s"
proof -
  have "dropWhile py_isspace (l @ s @ r) = dropWhile py_isspace (s @ r)"
    using assms(1) by (intro dropWhile_append2) (auto simp: list_all_iff)
  then show ?thesis
    unfolding py_strip_def using strip_pad_right [OF assms(2)] by simp
qed

lemma upper_case_variant:
  assumes "list_all2 (\<lambda>x y. py_upper_char x = py_upper_char y) a b"
  shows "py_upper a = py_upper b"
  using assms unfolding py_upper_def by (induction rule: list_all2_induct) simp_all

lemma upper_strip_case_variant:
  assumes "list_all2 (\<lambda>x y. py_upper_char x = py_upper_char y) a b"
  shows "py_upper (py_strip a) = py_upper (py_strip b)"
  using upper_case_variant [OF assms] by (simp add: strip_upper_commute [symmetric])

text \<open>
  Claim C7. The cache key is a function of its fields that normalizes them: a symbol that
  differs from another only in the case of its letters or in surrounding whitespace, and
  dates that, once brought to naive UTC, differ only in the time of day (whatever their
  timezone), give the same key.
\<close>

theorem cache_key_normalizing:
  assumes "list_all py_isspace l" and "list_all py_isspace r"
    and "list_all2 (\<lambda>x y. py_upper_char x = py_upper_char y) s s'"
    and "ts_date (to_timestamp sd) = ts_date (to_timestamp sd')"
    and "ts_date (to_timestamp ed) = ts_date (to_timestamp ed')"
  shows "cache_key md5 (l @ s' @ r) it w b rth sd' ed' = cache_key md5 s it w b rth sd ed"
  using assms(4,5) upper_strip_case_variant [OF assms(3)] strip_padded [OF assms(1,2), of s']
  by (simp add: cache_key_def)

theorem cache_key_normalizing_witness:
  "cache_key id ''  eurusd '' ''fx'' ''MIDPOINT'' ''1 day'' False
      (Aware \<lparr>ts_date = \<lparr>d_year = 2024, d_month = 1, d_day = 15\<rparr>, ts_time = 3600000000000\<rparr>
             \<lparr>ts_date = \<lparr>d_year = 2024, d_month = 1, d_day = 14\<rparr>, ts_time = 72000000000000\<rparr>)
      (Naive \<lparr>ts_date = \<lparr>d_year = 2024, d_month = 3, d_day = 31\<rparr>, ts_time = 59000000000\<rparr>)
   = cache_key id ''EurUsd'' ''fx'' ''MIDPOINT'' ''1 day'' False
      (Naive \<lparr>ts_date = \<lparr>d_year = 2024, d_month = 1, d_day = 15\<rparr>, ts_time = 0\<rparr>)
      (Naive \<lparr>ts_date = \<lparr>d_year = 2024, d_month = 3, d_day = 31\<rparr>, ts_time = 0\<rparr>)
   \<and> cache_key id ''EurUsd'' ''fx'' ''MIDPOINT'' ''1 day'' False
      (Naive \<lparr>ts_date = \<lparr>d_year = 2024, d_month = 1, d_day = 15\<rparr>, ts_time = 0\<rparr>)
      (Naive \<lparr>ts_date = \<lparr>d_year = 2024, d_month = 3, d_day = 31\<rparr>, ts_time = 0\<rparr>)
   = ''EURUSD|fx|MIDPOINT|1 day|all|2024-01-15|2024-03-31''"
proof -
  have l: "list_all py_isspace ''  ''" and r: "list_all py_isspace '' ''"
    by (simp_all add: py_isspace_def)
  have c: "list_all2 (\<lambda>x y. py_upper_char x = py_upper_char y) ''EurUsd'' ''eurusd''"
    by (simp add: py_upper_char_def ascii_lowercase_def ascii_uppercase_def)
  have k: "cache_key id ''EurUsd'' ''fx'' ''MIDPOINT'' ''1 day'' False
      (Naive \<lparr>ts_date = \<lparr>d_year = 2024, d_month = 1, d_day = 15\<rparr>, ts_time = 0\<rparr>)
      (Naive \<lparr>ts_date = \<lparr>d_year = 2024, d_month = 3, d_day = 31\<rparr>, ts_time = 0\<rparr>)
   = ''EURUSD|fx|MIDPOINT|1 day|all|2024-01-15|2024-03-31''"
    by (simp add: cache_key_def py_strip_def py_upper_def py_lower_def py_isspace_def
        py_upper_char_def py_lower_char_def ascii_lowercase_def ascii_uppercase_def
        date_isoformat_def zero_pad_def str_int_def str_nat.simps digit_char_def)
  show ?thesis
    using cache_key_normalizing [OF l r c, of
        "Naive \<lparr>ts_date = \<lparr>d_year = 2024, d_month = 1, d_day = 15\<rparr>, ts_time = 0\<rparr>"
        "Aware \<lparr>ts_date = \<lparr>d_year = 2024, d_month = 1, d_day = 15\<rparr>, ts_time = 3600000000000\<rparr>
             \<lparr>ts_date = \<lparr>d_year = 2024, d_month = 1, d_day = 14\<rparr>, ts_time = 72000000000000\<rparr>"
        "Naive \<lparr>ts_date = \<lparr>d_year = 2024, d_month = 3, d_day = 31\<rparr>, ts_time = 0\<rparr>"
        "Naive \<lparr>ts_date = \<lparr>d_year = 2024, d_month = 3, d_day = 31\<rparr>, ts_time = 59000000000\<rparr>"
        id "''fx''" "''MIDPOINT''" "''1 day''" False] k
    by simp
qed


section \<open>Cache freshness: verified properties\<close>

text \<open>
  For a window that starts at midnight, the test of the code agrees with the overlap of
  the window and the current calendar month.
\<close>

lemma includes_current_month_date_window:
  assumes "valid_date (ts_date s)" "valid_date (ts_date e)" "valid_date (ts_date n)"
    and "ts_time s = 0" "ts_time n mod 1000 = 0" "ts_le s e"
  shows "includes_current_month (Naive s) (Naive e) (Naive n) = spec_overlaps_current_month s e n"
proof -
  have ns: "\<not> ts_lt e s" using assms(6) by (auto simp: ts_lt_def ts_le_def)
  show ?thesis
    using assms(1-5) unfolding includes_current_month_def spec_overlaps_current_month_def
    by (auto simp: ns Let_def ts_le_def ts_key_def date_key_def month_key_def valid_date_def
        less_eq_prod_def less_prod_def)
qed

text \<open>
  A window that starts on the last day of the current month, later than midnight, overlaps
  the month, and the test of the code says it does not.
\<close>

lemma includes_current_month_last_day_gap:
  assumes "d_year (ts_date s) = d_year (ts_date n)" and "d_month (ts_date s) = d_month (ts_date n)"
    and "d_day (ts_date s) = days_in_month (d_year (ts_date n)) (d_month (ts_date n))"
    and "ts_time n mod 1000 < ts_time s" and "ts_le s e"
  shows "spec_overlaps_current_month s e n \<and> \<not> includes_current_month (Naive s) (Naive e) (Naive n)"
proof -
  have ns: "\<not> ts_lt e s" using assms(5) by (auto simp: ts_lt_def ts_le_def)
  have a: "\<not> includes_current_month (Naive s) (Naive e) (Naive n)"
    using assms(1-4)
    by (auto simp: includes_current_month_def ns Let_def ts_le_def ts_key_def date_key_def
        less_eq_prod_def less_prod_def)
  have b: "spec_overlaps_current_month s e n"
    using assms(1,2,5)
    by (auto simp: spec_overlaps_current_month_def month_key_def ts_le_def ts_key_def date_key_def
        less_eq_prod_def less_prod_def)
  show ?thesis using a b by simp
qed

text \<open>A file older than four hours is removed when the code finds the window current.\<close>

lemma get_cached_expired:
  assumes "fs (cache_path digest symb it w b rth sd ed) = Some f"
    and "includes_current_month sd ed (case now of Some n \<Rightarrow> n | None \<Rightarrow> datetime_now clk)"
    and "(time_time clk - f_mtime f) / 3600 > 4"
  shows "get_cached digest clk fs symb it w b rth sd ed now =
           (None, fs(cache_path digest symb it w b rth sd ed := None))"
  using assms by (simp add: get_cached_def is_expired_def CURRENT_MONTH_TTL_HOURS_def Let_def)

text \<open>Where the code finds the window not current, the age of the file plays no role.\<close>

lemma get_cached_no_ttl:
  assumes "fs (cache_path digest symb it w b rth sd ed) = Some f"
    and "\<not> includes_current_month sd ed (case now of Some n \<Rightarrow> n | None \<Rightarrow> datetime_now clk)"
  shows "get_cached digest clk fs symb it w b rth sd ed now =
           (case safe_read fs (cache_path digest symb it w b rth sd ed) of
              (None, fs') \<Rightarrow> (None, fs')
            | (Some s, fs') \<Rightarrow> (Some (s\<lparr>s_name := Some (py_upper (py_strip symb))\<rparr>), fs'))"
  using assms by (simp add: get_cached_def is_expired_def Let_def)

text \<open>
  Claim C3, at an input where the code departs from it. Now is 15 January 2024, 10:00 UTC.
  The window runs from 31 January 2024, 09:30, to 2 February 2024 and so overlaps the
  current month; the file is five hours old. The code compares the start with midnight of
  the last day of the month, finds the window not current, applies no TTL, and returns the
  cached series with the file left in place.
\<close>

theorem get_cached_last_day_window_kept:
  "spec_overlaps_current_month (ex_ts 2024 1 31 34200) (ex_ts 2024 2 2 0)
       (to_timestamp (datetime_now ex_clock))
   \<and> is_expired (time_time ex_clock) (f_mtime (ex_file 18000 (Parquet ex_frame)))
        (Some CURRENT_MONTH_TTL_HOURS)
   \<and> get_cached id ex_clock
        [ex_path (Naive (ex_ts 2024 1 31 34200)) (Naive (ex_ts 2024 2 2 0)) \<mapsto> ex_file 18000 (Parquet ex_frame)]
        ''ES'' ''futures'' ''TRADES'' ''1 day'' True
        (Naive (ex_ts 2024 1 31 34200)) (Naive (ex_ts 2024 2 2 0)) None
     = (Some \<lparr>s_name = Some ''ES'', s_rows = [(Some (ex_ts 2024 1 31 57600), Some 4510)]\<rparr>,
        [ex_path (Naive (ex_ts 2024 1 31 34200)) (Naive (ex_ts 2024 2 2 0)) \<mapsto> ex_file 18000 (Parquet ex_frame)])"
proof -
  have a: "spec_overlaps_current_month (ex_ts 2024 1 31 34200) (ex_ts 2024 2 2 0)
       (to_timestamp (datetime_now ex_clock))"
    by (simp add: spec_overlaps_current_month_def month_key_def ex_ts_def ex_clock_def less_eq_prod_def)
  have b: "is_expired (time_time ex_clock) (f_mtime (ex_file 18000 (Parquet ex_frame)))
        (Some CURRENT_MONTH_TTL_HOURS)"
    by (simp add: is_expired_def ex_file_def CURRENT_MONTH_TTL_HOURS_def)
  have c: "\<not> includes_current_month (Naive (ex_ts 2024 1 31 34200)) (Naive (ex_ts 2024 2 2 0))
       (datetime_now ex_clock)"
    by (simp add: includes_current_month_def ex_ts_def ex_clock_def ts_lt_def ts_le_def ts_key_def
        date_key_def days_in_month_def less_prod_def less_eq_prod_def Let_def)
  have up: "py_upper (py_strip ''ES'') = ''ES''"
    by (simp add: py_strip_def py_upper_def py_isspace_def py_upper_char_def
        ascii_lowercase_def ascii_uppercase_def)
  have d: "get_cached id ex_clock
        [ex_path (Naive (ex_ts 2024 1 31 34200)) (Naive (ex_ts 2024 2 2 0)) \<mapsto> ex_file 18000 (Parquet ex_frame)]
        ''ES'' ''futures'' ''TRADES'' ''1 day'' True
        (Naive (ex_ts 2024 1 31 34200)) (Naive (ex_ts 2024 2 2 0)) None
     = (Some \<lparr>s_name = Some ''ES'', s_rows = [(Some (ex_ts 2024 1 31 57600), Some 4510)]\<rparr>,
        [ex_path (Naive (ex_ts 2024 1 31 34200)) (Naive (ex_ts 2024 2 2 0)) \<mapsto> ex_file 18000 (Parquet ex_frame)])"
    using c
    by (simp add: get_cached_def ex_path_def [symmetric] is_expired_def safe_read_def ex_file_def
        ex_frame_def frame_empty_def drop_nat_index_def up Let_def)
  show ?thesis using a b d by blast
qed


section \<open>Corrupt cache files: verified properties\<close>




text \<open>
  A fresh file whose frame has no rows or no columns is read as an empty series and kept,
  whatever its columns are.
\<close>

lemma get_cached_empty_frame:
  assumes "fs (cache_path digest symb it w b rth sd ed) = Some f"
    and "f_content f = Parquet fr" and "frame_empty fr"
    and "\<not> is_expired (time_time clk) (f_mtime f)
           (if includes_current_month sd ed (case now of Some n \<Rightarrow> n | None \<Rightarrow> datetime_now clk)
            then Some CURRENT_MONTH_TTL_HOURS else None)"
  shows "get_cached digest clk fs symb it w b rth sd ed now =
           (Some \<lparr>s_name = Some (py_upper (py_strip symb)), s_rows = []\<rparr>, fs)"
  using assms by (simp add: get_cached_def safe_read_def empty_series_def Let_def)



section \<open>Cache round trip: verified properties\<close>

lemma filter_filter_rows:
  "filter (\<lambda>r. fst r \<noteq> None) (filter (\<lambda>r. snd r \<noteq> None) rows) = filter (\<lambda>r. snd r \<noteq> None \<and> fst r \<noteq> None) rows"
  by (induction rows) auto

lemma zip_fst_snd: "zip (map fst rows) (map snd rows) = rows"
  by (induction rows) auto

lemma put_cache_accepted:
  assumes "put_cache digest clk fs s symb it w b rth sd ed = (Some p, fs')"
  shows "p = cache_path digest symb it w b rth sd ed"
    and "filter (\<lambda>r. snd r \<noteq> None \<and> fst r \<noteq> None) (s_rows s) \<noteq> []"
    and "fs' = fs(p \<mapsto> \<lparr>f_mtime = time_time clk, f_content = Parquet
           \<lparr>f_index = map fst (filter (\<lambda>r. snd r \<noteq> None \<and> fst r \<noteq> None) (s_rows s)),
            f_columns = [(''value'', map snd (filter (\<lambda>r. snd r \<noteq> None \<and> fst r \<noteq> None) (s_rows s)))]\<rparr>\<rparr>)"
  using assms
  by (auto simp: put_cache_def Let_def series_empty_def dropna_def drop_nat_index_def filter_filter_rows
      split: if_splits)

lemma safe_read_stored:
  assumes "rows \<noteq> []" and "\<forall>r\<in>set rows. fst r \<noteq> None"
    and "fs p = Some \<lparr>f_mtime = m, f_content = Parquet \<lparr>f_index = map fst rows, f_columns = [(''value'', map snd rows)]\<rparr>\<rparr>"
  shows "safe_read fs p = (Some \<lparr>s_name = Some ''value'', s_rows = rows\<rparr>, fs)"
proof -
  have "filter (\<lambda>r. fst r \<noteq> None) rows = rows"
    using assms(2) by (induction rows) auto
  then show ?thesis
    using assms(1,3) by (simp add: safe_read_def frame_empty_def drop_nat_index_def zip_fst_snd)
qed

text \<open>
  Claim C5, as amended. For every series accepted by \<open>put_cache\<close> and every key, a put
  followed by a get with the same key fields, the file still fresh, returns the rows of the
  original series that have a value and a valid timestamp, in their original order and
  with their values unchanged; the cache neither sorts nor de-duplicates.
\<close>

theorem put_get_round_trip:
  assumes put: "put_cache digest clk fs s symb it w b rth sd ed = (Some p, fs')"
    and fresh: "\<not> is_expired (time_time clk') (time_time clk)
       (if includes_current_month sd ed (case now of Some n \<Rightarrow> n | None \<Rightarrow> datetime_now clk')
        then Some CURRENT_MONTH_TTL_HOURS else None)"
  shows "get_cached digest clk' fs' symb it w b rth sd ed now =
     (Some \<lparr>s_name = Some (py_upper (py_strip symb)),
            s_rows = filter (\<lambda>r. snd r \<noteq> None \<and> fst r \<noteq> None) (s_rows s)\<rparr>, fs')"
proof -
  let ?rows = "filter (\<lambda>r. snd r \<noteq> None \<and> fst r \<noteq> None) (s_rows s)"
  note acc = put_cache_accepted [OF put]
  have stored: "fs' p = Some \<lparr>f_mtime = time_time clk, f_content = Parquet
           \<lparr>f_index = map fst ?rows, f_columns = [(''value'', map snd ?rows)]\<rparr>\<rparr>"
    by (simp add: acc(3))
  have valid: "\<forall>r\<in>set ?rows. fst r \<noteq> None" by simp
  have rd: "safe_read fs' p = (Some \<lparr>s_name = Some ''value'', s_rows = ?rows\<rparr>, fs')"
    using acc(2) valid stored
    by (rule safe_read_stored [where rows = "?rows" and fs = fs' and p = p and m = "time_time clk"])
  show ?thesis
    using fresh stored rd unfolding get_cached_def acc(1) [symmetric]
    by (simp add: Let_def)
qed

lemma ex_put: "put_cache id ex_clock Map.empty ex_unsorted ''ES'' ''futures'' ''TRADES'' ''1 day'' True
     (Naive (ex_ts 2023 6 5 0)) (Naive (ex_ts 2023 6 30 0)) = (Some (cache_path id ''ES'' ''futures'' ''TRADES'' ''1 day'' True
     (Naive (ex_ts 2023 6 5 0)) (Naive (ex_ts 2023 6 30 0))), snd (put_cache id ex_clock Map.empty ex_unsorted ''ES'' ''futures'' ''TRADES'' ''1 day'' True
     (Naive (ex_ts 2023 6 5 0)) (Naive (ex_ts 2023 6 30 0))))"
  by (simp add: put_cache_def ex_unsorted_def series_empty_def dropna_def drop_nat_index_def Let_def)

lemma ex_not_current:
  "\<not> includes_current_month (Naive (ex_ts 2023 6 5 0)) (Naive (ex_ts 2023 6 30 0)) (datetime_now ex_clock)"
  by (simp add: includes_current_month_def ex_ts_def ex_clock_def ts_lt_def ts_le_def ts_key_def
      date_key_def days_in_month_def less_prod_def less_eq_prod_def Let_def)

theorem put_get_round_trip_witness:
  "get_cached id ex_clock
      (snd (put_cache id ex_clock Map.empty ex_unsorted ''ES'' ''futures'' ''TRADES'' ''1 day'' True
              (Naive (ex_ts 2023 6 5 0)) (Naive (ex_ts 2023 6 30 0))))
      ''ES'' ''futures'' ''TRADES'' ''1 day'' True (Naive (ex_ts 2023 6 5 0)) (Naive (ex_ts 2023 6 30 0)) None
   = (Some \<lparr>s_name = Some ''ES'', s_rows = [(Some (ex_ts 2023 6 12 0), Some 4525), (Some (ex_ts 2023 6 11 0), Some 4510)]\<rparr>,
      snd (put_cache id ex_clock Map.empty ex_unsorted ''ES'' ''futures'' ''TRADES'' ''1 day'' True
              (Naive (ex_ts 2023 6 5 0)) (Naive (ex_ts 2023 6 30 0))))"
proof -
  have fresh: "\<not> is_expired (time_time ex_clock) (time_time ex_clock)
       (if includes_current_month (Naive (ex_ts 2023 6 5 0)) (Naive (ex_ts 2023 6 30 0))
             (case None of Some n \<Rightarrow> n | None \<Rightarrow> datetime_now ex_clock)
        then Some CURRENT_MONTH_TTL_HOURS else None)"
    using ex_not_current by (simp add: is_expired_def)
  have up: "py_upper (py_strip ''ES'') = ''ES''"
    by (simp add: py_strip_def py_upper_def py_isspace_def py_upper_char_def
        ascii_lowercase_def ascii_uppercase_def)
  show ?thesis
    using put_get_round_trip [OF ex_put fresh] up by (simp add: ex_unsorted_def)
qed

text \<open>
  Where the rows that survive are strictly increasing in time, as in a series that
  \<open>_normalize_bars\<close> returns, they are their own time-sorted, de-duplicated projection.
\<close>

lemma dedup_keep_last_strict:
  assumes "sorted_wrt (\<lambda>a b. row_key a < row_key b) rows"
  shows "dedup_keep_last rows = rows"
  using assms by (induction rows rule: dedup_keep_last.induct) auto

lemma spec_projection_when_sorted:
  assumes "sorted_wrt (\<lambda>a b. row_key a < row_key b)
             (filter (\<lambda>r. snd r \<noteq> None \<and> fst r \<noteq> None) rows)"
  shows "spec_projection rows = filter (\<lambda>r. snd r \<noteq> None \<and> fst r \<noteq> None) rows"
proof -
  let ?rows = "filter (\<lambda>r. snd r \<noteq> None \<and> fst r \<noteq> None) rows"
  have "sorted_wrt (\<lambda>a b. row_key a \<le> row_key b) ?rows"
    using assms by (rule sorted_wrt_mono_rel [rotated]) simp
  then have "sorted (map row_key ?rows)"
    by (simp add: sorted_wrt_map)
  then have "sort_key row_key ?rows = ?rows"
    by (rule sort_key_id_if_sorted)
  then show ?thesis
    using dedup_keep_last_strict [OF assms] by (simp add: spec_projection_def)
qed

text \<open>
  A series whose rows are not in time order is accepted and comes back in the order it
  was stored, which is not its time-sorted projection.
\<close>

theorem round_trip_projection_counterexample:
  "fst (put_cache id ex_clock Map.empty ex_unsorted ''ES'' ''futures'' ''TRADES'' ''1 day'' True
              (Naive (ex_ts 2023 6 5 0)) (Naive (ex_ts 2023 6 30 0))) \<noteq> None \<and>
   map_option s_rows (fst (get_cached id ex_clock
      (snd (put_cache id ex_clock Map.empty ex_unsorted ''ES'' ''futures'' ''TRADES'' ''1 day'' True
              (Naive (ex_ts 2023 6 5 0)) (Naive (ex_ts 2023 6 30 0))))
      ''ES'' ''futures'' ''TRADES'' ''1 day'' True (Naive (ex_ts 2023 6 5 0)) (Naive (ex_ts 2023 6 30 0)) None))
    \<noteq> Some (spec_projection (s_rows ex_unsorted))"
proof -
  have proj: "spec_projection [(Some (ex_ts 2023 6 12 0), Some 4525), (Some (ex_ts 2023 6 11 0), Some 4510)] = [(Some (ex_ts 2023 6 11 0), Some 4510), (Some (ex_ts 2023 6 12 0), Some 4525)]"
    by (simp add: spec_projection_def row_key_def ts_key_def date_key_def ex_ts_def
        less_eq_prod_def less_prod_def)
  have neq: "ex_ts 2023 6 12 0 \<noteq> ex_ts 2023 6 11 0" by (simp add: ex_ts_def)
  show ?thesis
    using ex_not_current neq
    by (simp add: proj put_cache_def get_cached_def safe_read_def ex_unsorted_def series_empty_def
        dropna_def drop_nat_index_def frame_empty_def is_expired_def Let_def)
qed


section \<open>Historical series: verified properties\<close>

lemmas string_eval = py_strip_def py_upper_def py_lower_def py_isspace_def py_upper_char_def
  py_lower_char_def ascii_lowercase_def ascii_uppercase_def

lemma fetch_series_accepted:
  assumes "request_accepted env symbol itype sd ed profile wts ci symb s e rp c"
  shows "fetch_series env symbol itype sd ed profile wts ci w =
     (case cache_read_pass env symb rp s e (candidate_chain rp wts) w of
        (Some cached, w') \<Rightarrow> (Inr cached, w')
      | (None, w') \<Rightarrow>
         (case live_fetch_pass env symb rp c s e (candidate_chain rp wts) w' of
            (ser, w'') \<Rightarrow> (Inr ser, w'')))"
  using assms by (auto simp: request_accepted_def fetch_series_def Let_def)



text \<open>
  A date that \<open>pd.Timestamp\<close> turns into \<open>NaT\<close> is not rejected by the validation: the
  request goes on, and the exception of the first cache key leaves \<open>fetch_series\<close>, with
  no cache access and no gateway call before it.
\<close>

lemma fetch_series_NaT_date:
  assumes "py_upper (py_strip symbol) \<noteq> []"
    and "start_date = NaT \<or> end_date = NaT"
    and "start_date \<noteq> Unparsable" and "end_date \<noteq> Unparsable"
    and "resolved_profile_of profile itype = Some rp"
    and "candidate_chain rp wts \<noteq> []"
    and "e_resolve_contract env (py_upper (py_strip symbol)) (instrument_type rp) ci = Inr c"
  shows "fetch_series env symbol itype start_date end_date profile wts ci w
           = (Inl (OtherException ''NaTType does not support date''), w)"
  using assms
  by (cases start_date; cases end_date) (simp_all add: fetch_series_def Let_def)

subsection \<open>The cache-read pass\<close>

text \<open>A get reads and changes the cache directory only at the path of its key.\<close>

lemma safe_read_fst_cong:
  assumes "fa p = fb p"
  shows "fst (safe_read fa p) = fst (safe_read fb p)"
  using assms by (simp add: safe_read_def split: option.splits file_content.splits)

lemma get_cached_fst_cong:
  assumes "fa (cache_path digest symb it w b rth sd ed) = fb (cache_path digest symb it w b rth sd ed)"
  shows "fst (get_cached digest clk fa symb it w b rth sd ed now)
       = fst (get_cached digest clk fb symb it w b rth sd ed now)"
proof -
  let ?p = "cache_path digest symb it w b rth sd ed"
  obtain ra fa' where ra: "safe_read fa ?p = (ra, fa')" by (cases "safe_read fa ?p")
  obtain rb fb' where rb: "safe_read fb ?p = (rb, fb')" by (cases "safe_read fb ?p")
  have "ra = rb"
    using safe_read_fst_cong [where fa = fa and fb = fb, OF assms] ra rb by simp
  then show ?thesis
    using assms ra rb
    by (cases "fb ?p"; cases rb) (simp_all add: get_cached_def Let_def)
qed

lemma safe_read_snd_cases:
  "snd (safe_read fs p) = fs \<or> (snd (safe_read fs p) = fs(p := None) \<and> fst (safe_read fs p) = None)"
  by (simp add: safe_read_def split: option.splits file_content.splits)

lemma get_cached_snd_cases:
  "snd (get_cached digest clk fs symb it w b rth sd ed now) = fs \<or>
   (snd (get_cached digest clk fs symb it w b rth sd ed now)
      = fs(cache_path digest symb it w b rth sd ed := None) \<and>
    fst (get_cached digest clk fs symb it w b rth sd ed now) = None)"
  using safe_read_snd_cases [of fs "cache_path digest symb it w b rth sd ed"]
  by (auto simp: get_cached_def Let_def split: option.splits prod.splits)

lemma get_cached_same_path:
  assumes "cache_path digest symb it w b rth sd ed = cache_path digest symb it w' b rth sd ed"
  shows "get_cached digest clk fs symb it w b rth sd ed now = get_cached digest clk fs symb it w' b rth sd ed now"
  using assms by (simp add: get_cached_def)

lemma get_cached_absent:
  assumes "fs (cache_path digest symb it w b rth sd ed) = None"
  shows "get_cached digest clk fs symb it w b rth sd ed now = (None, fs)"
  using assms by (simp add: get_cached_def)

text \<open>A miss removes at most its own file, so it changes no hit of another candidate.\<close>

lemma cache_hit_after_miss:
  assumes "cache_hit env symb rp s e fs c' = None"
  shows "cache_hit env symb rp s e
           (snd (get_cached (e_md5 env) (e_clock env) fs symb (instrument_type rp) c'
                   (bar_size rp) (use_rth rp) s e None)) c
         = cache_hit env symb rp s e fs c"
proof -
  let ?get = "\<lambda>fs c. get_cached (e_md5 env) (e_clock env) fs symb (instrument_type rp) c
                   (bar_size rp) (use_rth rp) s e None"
  let ?path = "\<lambda>c. cache_path (e_md5 env) symb (instrument_type rp) c (bar_size rp) (use_rth rp) s e"
  have "snd (?get fs c') = fs \<or>
        (snd (?get fs c') = fs(?path c' := None) \<and> fst (?get fs c') = None)"
    by (rule get_cached_snd_cases)
  then consider (same) "snd (?get fs c') = fs"
    | (removed) "snd (?get fs c') = fs(?path c' := None)" "fst (?get fs c') = None"
    by auto
  then show ?thesis
  proof cases
    case same
    then show ?thesis by simp
  next
    case removed
    show ?thesis
    proof (cases "?path c = ?path c'")
      case True
      then have "?get fs c = ?get fs c'" by (rule get_cached_same_path)
      then have before: "cache_hit env symb rp s e fs c = None"
        using assms by (simp add: cache_hit_def)
      have "(fs(?path c' := None)) (?path c) = None" using True by simp
      then have "?get (fs(?path c' := None)) c = (None, fs(?path c' := None))"
        by (rule get_cached_absent)
      then show ?thesis using before removed(1) by (simp add: cache_hit_def)
    next
      case False
      then have "(fs(?path c' := None)) (?path c) = fs (?path c)" by simp
      then have "fst (?get (fs(?path c' := None)) c) = fst (?get fs c)"
        by (rule get_cached_fst_cong)
      then show ?thesis using removed(1) by (simp add: cache_hit_def)
    qed
  qed
qed

lemma cache_read_pass_first_hit:
  assumes "\<forall>c'\<in>set pre. cache_hit env symb rp s e (w_fs w) c' = None"
    and "cache_hit env symb rp s e (w_fs w) cand = Some ser"
  shows "\<exists>fs'. cache_read_pass env symb rp s e (pre @ cand # post) w =
           (Some (ser\<lparr>s_name := Some symb\<rparr>),
            \<lparr>w_fs = fs', w_trace = w_trace w @ map EvCacheGet (pre @ [cand])\<rparr>)"
  using assms
proof (induction pre arbitrary: w)
  case Nil
  then show ?case
    by (cases w) (auto simp: cache_hit_def split: prod.splits option.splits if_splits)
next
  case (Cons c' pre)
  let ?r = "get_cached (e_md5 env) (e_clock env) (w_fs w) symb (instrument_type rp) c'
                   (bar_size rp) (use_rth rp) s e None"
  let ?w' = "w\<lparr>w_fs := snd ?r, w_trace := w_trace w @ [EvCacheGet c']\<rparr>"
  have miss: "cache_hit env symb rp s e (w_fs w) c' = None" using Cons.prems(1) by simp
  have step: "cache_read_pass env symb rp s e ((c' # pre) @ cand # post) w
            = cache_read_pass env symb rp s e (pre @ cand # post) ?w'"
    using miss by (auto simp: cache_hit_def Let_def split: prod.splits option.splits if_splits)
  have keep: "cache_hit env symb rp s e (snd ?r) c = cache_hit env symb rp s e (w_fs w) c" for c
    by (rule cache_hit_after_miss [OF miss])
  have "\<exists>fs'. cache_read_pass env symb rp s e (pre @ cand # post) ?w' =
           (Some (ser\<lparr>s_name := Some symb\<rparr>),
            \<lparr>w_fs = fs', w_trace = w_trace ?w' @ map EvCacheGet (pre @ [cand])\<rparr>)"
    using Cons.prems by (intro Cons.IH) (simp_all add: keep)
  then show ?case unfolding step by simp
qed

subsection \<open>The events of a call\<close>

lemma connect_ib_trace:
  "snd (connect_ib env tr) = tr @ [EvConnect]"
  by (simp add: connect_ib_def split: option.splits)

lemma request_bars_body_trace:
  "\<exists>evs. snd (request_bars_body env c rp cand s e tr) = tr @ evs \<and> (\<forall>ev\<in>set evs. \<not> is_cache_get ev)"
  by (auto simp: request_bars_body_def Let_def split: sum.splits option.splits)

lemma request_bars_world:
  "\<exists>evs. snd (request_bars env c rp cand s e w) = w\<lparr>w_trace := w_trace w @ evs\<rparr>
         \<and> (\<forall>ev\<in>set evs. \<not> is_cache_get ev)"
proof -
  obtain r tr where c: "connect_ib env (w_trace w) = (r, tr)" by (cases "connect_ib env (w_trace w)")
  then have tr: "tr = w_trace w @ [EvConnect]" using connect_ib_trace [of env "w_trace w"] by simp
  show ?thesis
  proof (cases r)
    case (Inl exc)
    then show ?thesis using c tr by (auto simp: request_bars_def intro: exI [of _ "[EvConnect]"])
  next
    case (Inr u)
    obtain rb tr' where b: "request_bars_body env c rp cand s e tr = (rb, tr')"
      by (cases "request_bars_body env c rp cand s e tr")
    obtain evs where evs: "tr' = tr @ evs" "\<forall>ev\<in>set evs. \<not> is_cache_get ev"
      using request_bars_body_trace [of env c rp cand s e tr] b by auto
    have "snd (request_bars env c rp cand s e w) = w\<lparr>w_trace := w_trace w @ ([EvConnect] @ evs @ [EvDisconnect])\<rparr>"
      using c Inr b evs(1) tr by (cases rb) (simp_all add: request_bars_def)
    moreover have "\<forall>ev\<in>set ([EvConnect] @ evs @ [EvDisconnect]). \<not> is_cache_get ev"
      using evs(2) by simp
    ultimately show ?thesis by blast
  qed
qed

lemma fetch_attempt_world:
  "\<exists>fs' evs. snd (fetch_attempt env symb rp c s e cand w) = \<lparr>w_fs = fs', w_trace = w_trace w @ evs\<rparr>
         \<and> (\<forall>ev\<in>set evs. \<not> is_cache_get ev)"
proof -
  obtain r w' where rb: "request_bars env c rp cand s e w = (r, w')"
    by (cases "request_bars env c rp cand s e w")
  obtain evs where evs: "w' = w\<lparr>w_trace := w_trace w @ evs\<rparr>" "\<forall>ev\<in>set evs. \<not> is_cache_get ev"
    using request_bars_world [of env c rp cand s e w] rb by auto
  have w': "w' = \<lparr>w_fs = w_fs w, w_trace = w_trace w @ evs\<rparr>" using evs(1) by (cases w) simp
  have ext: "\<forall>ev\<in>set (evs @ [EvCachePut cand]). \<not> is_cache_get ev" using evs(2) by simp
  show ?thesis
  proof (cases r)
    case (Inl exc)
    then show ?thesis using rb w' evs(2) by (auto simp: fetch_attempt_def)
  next
    case (Inr bars)
    show ?thesis
    proof (cases "e_normalize_bars env symb bars (bar_size rp) s e")
      case (Inl exc)
      then show ?thesis using rb Inr w' evs(2) by (auto simp: fetch_attempt_def)
    next
      case (Inr ser)
      show ?thesis
      proof (cases "series_empty ser")
        case True
        then show ?thesis using rb \<open>r = Inr bars\<close> Inr w' evs(2) by (auto simp: fetch_attempt_def)
      next
        case False
        then have "\<exists>fs'. snd (fetch_attempt env symb rp c s e cand w)
                 = \<lparr>w_fs = fs', w_trace = w_trace w @ (evs @ [EvCachePut cand])\<rparr>"
          using rb \<open>r = Inr bars\<close> Inr w' by (auto simp: fetch_attempt_def split: prod.splits)
        then show ?thesis using ext by blast
      qed
    qed
  qed
qed

lemma live_fetch_pass_world:
  "\<exists>fs' evs. snd (live_fetch_pass env symb rp c s e chain w) = \<lparr>w_fs = fs', w_trace = w_trace w @ evs\<rparr>
         \<and> (\<forall>ev\<in>set evs. \<not> is_cache_get ev)"
proof (induction chain arbitrary: w)
  case Nil
  show ?case by (cases w) (auto intro: exI [of _ "[]"])
next
  case (Cons cand chain)
  obtain r w' where fa: "fetch_attempt env symb rp c s e cand w = (r, w')"
    by (cases "fetch_attempt env symb rp c s e cand w")
  obtain fs1 evs1 where w': "w' = \<lparr>w_fs = fs1, w_trace = w_trace w @ evs1\<rparr>"
      and evs1: "\<forall>ev\<in>set evs1. \<not> is_cache_get ev"
    using fetch_attempt_world [of env symb rp c s e cand w] fa by auto
  obtain fs2 evs2 where rest: "snd (live_fetch_pass env symb rp c s e chain w') = \<lparr>w_fs = fs2, w_trace = w_trace w' @ evs2\<rparr>"
      and evs2: "\<forall>ev\<in>set evs2. \<not> is_cache_get ev"
    using Cons.IH [of w'] by auto
  have stop: "\<exists>fs' evs. w' = \<lparr>w_fs = fs', w_trace = w_trace w @ evs\<rparr> \<and> (\<forall>ev\<in>set evs. \<not> is_cache_get ev)"
    using w' evs1 by blast
  have go: "\<exists>fs' evs. snd (live_fetch_pass env symb rp c s e chain w') = \<lparr>w_fs = fs', w_trace = w_trace w @ evs\<rparr>
         \<and> (\<forall>ev\<in>set evs. \<not> is_cache_get ev)"
  proof -
    have "snd (live_fetch_pass env symb rp c s e chain w') = \<lparr>w_fs = fs2, w_trace = w_trace w @ (evs1 @ evs2)\<rparr>"
      using rest w' by simp
    moreover have "\<forall>ev\<in>set (evs1 @ evs2). \<not> is_cache_get ev" using evs1 evs2 by auto
    ultimately show ?thesis by blast
  qed
  show ?case
    using fa stop go
    by (cases r) (auto split: option.splits)
qed

lemma cache_read_pass_world:
  "\<exists>fs' k. snd (cache_read_pass env symb rp s e chain w)
             = \<lparr>w_fs = fs', w_trace = w_trace w @ map EvCacheGet (take k chain)\<rparr>
         \<and> (fst (cache_read_pass env symb rp s e chain w) = None \<longrightarrow> k = length chain)"
proof (induction chain arbitrary: w)
  case Nil
  show ?case by (cases w) auto
next
  case (Cons cand chain)
  let ?r = "get_cached (e_md5 env) (e_clock env) (w_fs w) symb (instrument_type rp) cand
                   (bar_size rp) (use_rth rp) s e None"
  let ?w' = "w\<lparr>w_fs := snd ?r, w_trace := w_trace w @ [EvCacheGet cand]\<rparr>"
  obtain fs' k where rest: "snd (cache_read_pass env symb rp s e chain ?w')
             = \<lparr>w_fs = fs', w_trace = w_trace ?w' @ map EvCacheGet (take k chain)\<rparr>"
     and k: "fst (cache_read_pass env symb rp s e chain ?w') = None \<longrightarrow> k = length chain"
    using Cons.IH [of ?w'] by (elim exE conjE) (rule that)
  have go: "snd (cache_read_pass env symb rp s e chain ?w')
             = \<lparr>w_fs = fs', w_trace = w_trace w @ map EvCacheGet (take (Suc k) (cand # chain))\<rparr>"
    using rest by simp
  have stop: "?w' = \<lparr>w_fs = snd ?r, w_trace = w_trace w @ map EvCacheGet (take (Suc 0) (cand # chain))\<rparr>"
    by (cases w) simp
  show ?case
  proof (cases "\<exists>ser. fst ?r = Some ser \<and> \<not> series_empty ser")
    case True
    then have "snd (cache_read_pass env symb rp s e (cand # chain) w) = ?w'"
         "fst (cache_read_pass env symb rp s e (cand # chain) w) \<noteq> None"
      by (auto simp: Let_def split: prod.splits)
    then show ?thesis using stop by metis
  next
    case False
    then have "cache_read_pass env symb rp s e (cand # chain) w = cache_read_pass env symb rp s e chain ?w'"
      by (auto simp: Let_def split: prod.splits option.splits)
    then show ?thesis using go k by (metis length_Cons)
  qed
qed

subsection \<open>An example request\<close>

lemma ex_get_profile_fx: "get_profile ''fx'' = Some ex_fx_profile"
  by (simp add: get_profile_def PROFILES_def ex_fx_profile_def string_eval)

lemma ex_accepted:
  "request_accepted ex_env '' eurusd '' ''fx'' (Parsable ex_start) (Parsable ex_end) None None ()
     ''EURUSD'' ex_start ex_end ex_fx_profile ex_fx_contract"
  by (simp add: request_accepted_def resolved_profile_of_def ex_get_profile_fx candidate_chain_def
      ex_fx_profile_def ex_env_def ex_fx_contract_def ex_start_def ex_end_def ts_lt_def ts_key_def
      date_key_def ex_ts_def less_prod_def string_eval)

lemma ex_paths_differ: "ex_fx_path ''MIDPOINT'' \<noteq> ex_fx_path ''BID''"
  by (simp add: ex_fx_path_def cache_path_def cache_key_def string_eval)

lemma ex_window_not_current: "\<not> includes_current_month ex_start ex_end (datetime_now ex_clock)"
  by (simp add: includes_current_month_def ex_start_def ex_end_def ex_ts_def ex_clock_def ts_lt_def
      ts_le_def ts_key_def date_key_def days_in_month_def less_prod_def less_eq_prod_def Let_def)

lemma ex_hit_midpoint:
  "cache_hit ex_env ''EURUSD'' ex_fx_profile ex_start ex_end (w_fs ex_world_bid) ''MIDPOINT'' = None"
  using ex_paths_differ
  by (simp add: cache_hit_def get_cached_def ex_env_def ex_fx_profile_def ex_world_bid_def
      ex_fx_path_def [symmetric])

lemma ex_hit_bid:
  "cache_hit ex_env ''EURUSD'' ex_fx_profile ex_start ex_end (w_fs ex_world_bid) ''BID''
     = Some \<lparr>s_name = Some ''EURUSD'', s_rows = [(Some (ex_ts 2024 1 31 57600), Some 4510)]\<rparr>"
  using ex_window_not_current
  by (simp add: cache_hit_def get_cached_def ex_env_def ex_fx_profile_def ex_world_bid_def
      ex_fx_path_def [symmetric] is_expired_def safe_read_def ex_file_def ex_frame_def
      frame_empty_def drop_nat_index_def series_empty_def Let_def string_eval)

lemma ex_duration: "duration_for_request ex_fx_profile ex_start ex_end (utcnow ex_clock) = ''1 Y''"
  by (simp add: duration_for_request_def compute_duration_str_def ex_fx_profile_def ex_start_def
      ex_end_def ex_ts_def date_le_def date_lt_def date_key_def date_add_years_def days_in_month_def
      is_leap_def less_prod_def less_eq_prod_def str_int_def str_nat.simps digit_char_def Let_def)


subsection \<open>Cache hits come first\<close>

text \<open>
  Claim C1. For every \<open>fetch_series\<close> request that passes input validation, profile
  lookup and contract resolution: the events of the call are cache reads of candidates of
  the chain, in chain order, followed by events of the live pass, none of which is a cache
  read, and the live pass starts only after the whole chain was read. If a candidate of the
  chain has a fresh non-empty cache hit, the result is the cached series of the first such
  candidate in chain order, and the only events are the cache reads up to that candidate:
  no gateway session is opened.
\<close>

theorem fetch_series_cache_first:
  assumes "request_accepted env symbol itype sd ed profile wts ci symb s e rp c"
  shows "(\<exists>fs' k live.
            snd (fetch_series env symbol itype sd ed profile wts ci w)
              = \<lparr>w_fs = fs',
                 w_trace = w_trace w @ map EvCacheGet (take k (candidate_chain rp wts)) @ live\<rparr>
            \<and> list_all (\<lambda>ev. \<not> is_cache_get ev) live
            \<and> (live = [] \<or> k = length (candidate_chain rp wts)))
       \<and> (\<forall>pre cand post ser.
            candidate_chain rp wts = pre @ cand # post \<and>
            list_all (\<lambda>c'. cache_hit env symb rp s e (w_fs w) c' = None) pre \<and>
            cache_hit env symb rp s e (w_fs w) cand = Some ser \<longrightarrow>
            (\<exists>fs'. fetch_series env symbol itype sd ed profile wts ci w =
               (Inr (ser\<lparr>s_name := Some symb\<rparr>),
                \<lparr>w_fs = fs', w_trace = w_trace w @ map EvCacheGet (pre @ [cand])\<rparr>)))"
proof (intro conjI allI impI)
  let ?chain = "candidate_chain rp wts"
  note fs = fetch_series_accepted [OF assms, of w]
  obtain r w1 where crp: "cache_read_pass env symb rp s e ?chain w = (r, w1)"
    by (cases "cache_read_pass env symb rp s e ?chain w")
  obtain fs1 k where w1: "w1 = \<lparr>w_fs = fs1, w_trace = w_trace w @ map EvCacheGet (take k ?chain)\<rparr>"
      and k: "r = None \<longrightarrow> k = length ?chain"
    using cache_read_pass_world [of env symb rp s e ?chain w] crp by auto
  show "\<exists>fs' k live.
            snd (fetch_series env symbol itype sd ed profile wts ci w)
              = \<lparr>w_fs = fs', w_trace = w_trace w @ map EvCacheGet (take k ?chain) @ live\<rparr>
            \<and> list_all (\<lambda>ev. \<not> is_cache_get ev) live
            \<and> (live = [] \<or> k = length ?chain)"
  proof (cases r)
    case (Some cached)
    then have "snd (fetch_series env symbol itype sd ed profile wts ci w)
         = \<lparr>w_fs = fs1, w_trace = w_trace w @ map EvCacheGet (take k ?chain) @ []\<rparr>"
      using fs crp w1 by simp
    then show ?thesis
      by (intro exI [of _ fs1] exI [of _ k] exI [of _ "[]"]) simp
  next
    case None
    obtain ser w2 where live: "live_fetch_pass env symb rp c s e ?chain w1 = (ser, w2)"
      by (cases "live_fetch_pass env symb rp c s e ?chain w1")
    obtain fs2 evs where w2: "w2 = \<lparr>w_fs = fs2, w_trace = w_trace w1 @ evs\<rparr>"
        and evs: "\<forall>ev\<in>set evs. \<not> is_cache_get ev"
      using live_fetch_pass_world [of env symb rp c s e ?chain w1] live by auto
    have "snd (fetch_series env symbol itype sd ed profile wts ci w)
         = \<lparr>w_fs = fs2, w_trace = w_trace w @ map EvCacheGet (take k ?chain) @ evs\<rparr>"
      using fs crp None live w1 w2 by simp
    moreover have "list_all (\<lambda>ev. \<not> is_cache_get ev) evs" using evs by (simp add: list_all_iff)
    moreover have "k = length ?chain" using k None by simp
    ultimately show ?thesis by blast
  qed
next
  fix pre cand post ser
  assume h: "candidate_chain rp wts = pre @ cand # post \<and>
            list_all (\<lambda>c'. cache_hit env symb rp s e (w_fs w) c' = None) pre \<and>
            cache_hit env symb rp s e (w_fs w) cand = Some ser"
  then have miss: "\<forall>c'\<in>set pre. cache_hit env symb rp s e (w_fs w) c' = None"
    by (simp add: list_all_iff)
  obtain fs' where "cache_read_pass env symb rp s e (pre @ cand # post) w =
           (Some (ser\<lparr>s_name := Some symb\<rparr>),
            \<lparr>w_fs = fs', w_trace = w_trace w @ map EvCacheGet (pre @ [cand])\<rparr>)"
    using cache_read_pass_first_hit [OF miss, of cand ser post] h by blast
  then show "\<exists>fs'. fetch_series env symbol itype sd ed profile wts ci w =
               (Inr (ser\<lparr>s_name := Some symb\<rparr>),
                \<lparr>w_fs = fs', w_trace = w_trace w @ map EvCacheGet (pre @ [cand])\<rparr>)"
    using fetch_series_accepted [OF assms, of w] h by simp
qed

theorem fetch_series_cache_first_witness:
  "\<exists>fs'. fetch_series ex_env '' eurusd '' ''fx'' (Parsable ex_start) (Parsable ex_end) None None ()
           ex_world_bid =
         (Inr \<lparr>s_name = Some ''EURUSD'', s_rows = [(Some (ex_ts 2024 1 31 57600), Some 4510)]\<rparr>,
          \<lparr>w_fs = fs', w_trace = [EvCacheGet ''MIDPOINT'', EvCacheGet ''BID'']\<rparr>)"
proof -
  have chain: "candidate_chain ex_fx_profile None = [''MIDPOINT''] @ ''BID'' # [''ASK'']"
    by (simp add: candidate_chain_def ex_fx_profile_def)
  have miss: "list_all (\<lambda>c'. cache_hit ex_env ''EURUSD'' ex_fx_profile ex_start ex_end
                  (w_fs ex_world_bid) c' = None) [''MIDPOINT'']"
    using ex_hit_midpoint by simp
  have tr: "w_trace ex_world_bid = []" by (simp add: ex_world_bid_def)
  from fetch_series_cache_first [OF ex_accepted, of ex_world_bid]
  have "\<forall>pre cand post ser.
            candidate_chain ex_fx_profile None = pre @ cand # post \<and>
            list_all (\<lambda>c'. cache_hit ex_env ''EURUSD'' ex_fx_profile ex_start ex_end (w_fs ex_world_bid) c' = None) pre \<and>
            cache_hit ex_env ''EURUSD'' ex_fx_profile ex_start ex_end (w_fs ex_world_bid) cand = Some ser \<longrightarrow>
            (\<exists>fs'. fetch_series ex_env '' eurusd '' ''fx'' (Parsable ex_start) (Parsable ex_end) None None () ex_world_bid =
               (Inr (ser\<lparr>s_name := Some ''EURUSD''\<rparr>),
                \<lparr>w_fs = fs', w_trace = w_trace ex_world_bid @ map EvCacheGet (pre @ [cand])\<rparr>))"
    by (rule conjunct2)
  from this [rule_format, of "[''MIDPOINT'']" "''BID''" "[''ASK'']"
      "\<lparr>s_name = Some ''EURUSD'', s_rows = [(Some (ex_ts 2024 1 31 57600), Some 4510)]\<rparr>"]
  show ?thesis using chain miss ex_hit_bid tr by simp
qed

subsection \<open>Errors in the live pass\<close>

lemma fetch_series_returns:
  assumes "request_accepted env symbol itype sd ed profile wts ci symb s e rp c"
  shows "\<exists>ser w'. fetch_series env symbol itype sd ed profile wts ci w = (Inr ser, w')"
  using fetch_series_accepted [OF assms, of w]
  by (auto split: prod.splits option.splits)

lemma live_fetch_pass_advance:
  assumes "request_bars env c rp cand s e w = (Inl exc, w')"
    and "isinstance_IBKRNoDataError exc \<or> isinstance_IBKREntitlementError exc"
  shows "live_fetch_pass env symb rp c s e (cand # rest) w = live_fetch_pass env symb rp c s e rest w'"
  using assms by (auto simp: fetch_attempt_def)

lemma live_fetch_pass_abort:
  assumes "request_bars env c rp cand s e w = (Inl exc, w')"
    and "isinstance_IBKRContractError exc \<or> isinstance_IBKRConnectionError exc"
  shows "live_fetch_pass env symb rp c s e (cand # rest) w = (empty_series, w')"
  using assms by (cases exc) (auto simp: fetch_attempt_def)

text \<open>What the gateway does and the exception \<open>_request_bars\<close> raises for it.\<close>

lemma request_bars_connect_failed:
  assumes "e_connect env (w_trace w) = Some exc"
  shows "\<exists>m. request_bars env c rp cand s e w
             = (Inl (IBKRConnectionError m), w\<lparr>w_trace := w_trace w @ [EvConnect]\<rparr>)"
  using assms by (simp add: request_bars_def connect_ib_def)

lemma request_bars_unqualified:
  assumes "e_connect env (w_trace w) = None"
    and "e_qualifyContracts env (w_trace w @ [EvConnect]) c = Inr qualified"
    and "first_not_None qualified = None"
  shows "request_bars env c rp cand s e w
           = (Inl (IBKRContractError ''Unable to qualify IBKR contract''),
              w\<lparr>w_trace := w_trace w @ [EvConnect, EvQualifyContracts, EvDisconnect]\<rparr>)"
  using assms
  by (simp add: request_bars_def connect_ib_def request_bars_body_def classify_exception_def Let_def)

lemma request_bars_no_bars:
  assumes "e_connect env (w_trace w) = None"
    and "e_qualifyContracts env (w_trace w @ [EvConnect]) c = Inr qualified"
    and "first_not_None qualified = Some qc"
    and "e_reqHistoricalData env (w_trace w @ [EvConnect, EvQualifyContracts]) qc
           (duration_for_request rp s e (utcnow (e_clock env))) (bar_size rp) cand (use_rth rp) = Inr []"
  shows "request_bars env c rp cand s e w
           = (Inl (IBKRNoDataError ''No historical bars returned''),
              w\<lparr>w_trace := w_trace w @ [EvConnect, EvQualifyContracts,
                   EvReqHistoricalData cand (duration_for_request rp s e (utcnow (e_clock env))),
                   EvDisconnect]\<rparr>)"
proof -
  have "qualified \<noteq> []" using assms(3) by auto
  then show ?thesis
    using assms
    by (simp add: request_bars_def connect_ib_def request_bars_body_def classify_exception_def Let_def)
qed

text \<open>
  Claim C2. In the live-fetch pass, at every position of the chain: when
  \<open>_request_bars\<close> raises a no-data error or an entitlement error for the candidate, the
  pass goes on with the next candidate; when it raises a contract error or a connection
  error, the pass ends at once with an empty series. \<open>fetch_series\<close> returns a series
  and raises none of these exceptions.
\<close>

theorem fetch_series_live_error_policy:
  assumes "request_accepted env symbol itype sd ed profile wts ci symb s e rp c"
  shows "(\<exists>ser w'. fetch_series env symbol itype sd ed profile wts ci w = (Inr ser, w'))
       \<and> (\<forall>cand rest w0 w1 exc.
            request_bars env c rp cand s e w0 = (Inl exc, w1) \<longrightarrow>
              ((isinstance_IBKRNoDataError exc \<or> isinstance_IBKREntitlementError exc) \<longrightarrow>
                 live_fetch_pass env symb rp c s e (cand # rest) w0
                   = live_fetch_pass env symb rp c s e rest w1)
            \<and> ((isinstance_IBKRContractError exc \<or> isinstance_IBKRConnectionError exc) \<longrightarrow>
                 live_fetch_pass env symb rp c s e (cand # rest) w0 = (empty_series, w1)))"
proof (intro conjI allI impI)
  show "\<exists>ser w'. fetch_series env symbol itype sd ed profile wts ci w = (Inr ser, w')"
    by (rule fetch_series_returns [OF assms])
next
  fix cand rest w0 w1 exc
  assume "request_bars env c rp cand s e w0 = (Inl exc, w1)"
    and "isinstance_IBKRNoDataError exc \<or> isinstance_IBKREntitlementError exc"
  then show "live_fetch_pass env symb rp c s e (cand # rest) w0
                   = live_fetch_pass env symb rp c s e rest w1"
    by (rule live_fetch_pass_advance)
next
  fix cand rest w0 w1 exc
  assume "request_bars env c rp cand s e w0 = (Inl exc, w1)"
    and "isinstance_IBKRContractError exc \<or> isinstance_IBKRConnectionError exc"
  then show "live_fetch_pass env symb rp c s e (cand # rest) w0 = (empty_series, w1)"
    by (rule live_fetch_pass_abort)
qed

lemma ex_request_midpoint:
  "request_bars ex_env ex_fx_contract ex_fx_profile ''MIDPOINT'' ex_start ex_end ex_world_empty
     = (Inl (IBKRNoDataError ''No historical bars returned''), ex_world_after_midpoint)"
proof -
  have q: "first_not_None [Some ex_fx_contract] = Some ex_fx_contract" by simp
  have clk: "e_clock ex_env = ex_clock" by (simp add: ex_env_def)
  have a: "e_connect ex_env (w_trace ex_world_empty) = None"
    by (simp add: ex_env_def ex_world_empty_def)
  have b: "e_qualifyContracts ex_env (w_trace ex_world_empty @ [EvConnect]) ex_fx_contract
             = Inr [Some ex_fx_contract]"
    by (simp add: ex_env_def)
  have c: "e_reqHistoricalData ex_env (w_trace ex_world_empty @ [EvConnect, EvQualifyContracts])
             ex_fx_contract
             (duration_for_request ex_fx_profile ex_start ex_end (utcnow (e_clock ex_env)))
             (bar_size ex_fx_profile) ''MIDPOINT'' (use_rth ex_fx_profile) = Inr []"
    by (simp add: ex_env_def)
  show ?thesis
    using request_bars_no_bars [OF a b q c]
    by (simp add: clk ex_duration ex_world_empty_def ex_world_after_midpoint_def)
qed

lemma ex_request_ask:
  "request_bars ex_env ex_fx_contract ex_fx_profile ''ASK'' ex_start ex_end ex_world_after_bid
     = (Inl (IBKRConnectionError ''IB Gateway not running''),
        ex_world_after_bid\<lparr>w_trace := w_trace ex_world_after_bid @ [EvConnect]\<rparr>)"
  by (simp add: request_bars_def connect_ib_def ex_env_def ex_world_after_bid_def)

theorem fetch_series_live_error_policy_witness:
  "(\<exists>ser w'. fetch_series ex_env '' eurusd '' ''fx'' (Parsable ex_start) (Parsable ex_end) None None ()
       ex_world_empty = (Inr ser, w'))
   \<and> live_fetch_pass ex_env ''EURUSD'' ex_fx_profile ex_fx_contract ex_start ex_end
        [''MIDPOINT'', ''BID'', ''ASK''] ex_world_empty
      = live_fetch_pass ex_env ''EURUSD'' ex_fx_profile ex_fx_contract ex_start ex_end
        [''BID'', ''ASK''] ex_world_after_midpoint
   \<and> live_fetch_pass ex_env ''EURUSD'' ex_fx_profile ex_fx_contract ex_start ex_end
        [''ASK''] ex_world_after_bid
      = (empty_series, ex_world_after_bid\<lparr>w_trace := w_trace ex_world_after_bid @ [EvConnect]\<rparr>)"
proof -
  note pol = fetch_series_live_error_policy [OF ex_accepted, of ex_world_empty]
  note step = pol [THEN conjunct2, rule_format]
  have a: "isinstance_IBKRNoDataError (IBKRNoDataError ''No historical bars returned'')
           \<or> isinstance_IBKREntitlementError (IBKRNoDataError ''No historical bars returned'')"
    by simp
  have b: "isinstance_IBKRContractError (IBKRConnectionError ''IB Gateway not running'')
           \<or> isinstance_IBKRConnectionError (IBKRConnectionError ''IB Gateway not running'')"
    by simp
  show ?thesis
    using pol [THEN conjunct1] step [OF ex_request_midpoint, THEN conjunct1, rule_format, OF a]
      step [OF ex_request_ask, THEN conjunct2, rule_format, OF b]
    by blast
qed

text \<open>
  The example request on an empty cache: no data for the first candidate, no permission
  for the second, no gateway for the third.
\<close>

lemma ex_scenario:
  "fetch_series ex_env '' eurusd '' ''fx'' (Parsable ex_start) (Parsable ex_end) None None ()
       ex_world_empty
   = (Inr empty_series,
      \<lparr>w_fs = Map.empty,
       w_trace = [EvCacheGet ''MIDPOINT'', EvCacheGet ''BID'', EvCacheGet ''ASK'',
                  EvConnect, EvQualifyContracts, EvReqHistoricalData ''MIDPOINT'' ''1 Y'', EvDisconnect,
                  EvConnect, EvQualifyContracts, EvReqHistoricalData ''BID'' ''1 Y'', EvDisconnect,
                  EvConnect]\<rparr>)"
proof -
  have env:
    "e_clock ex_env = ex_clock"
    "e_connect ex_env = (\<lambda>tr. if 2 \<le> length (filter (\<lambda>ev. ev = EvConnect) tr)
                          then Some (ConnectionRefusedError ''Connection refused'') else None)"
    "e_qualifyContracts ex_env = (\<lambda>tr c. Inr [Some c])"
    "e_reqHistoricalData ex_env = (\<lambda>tr c duration_str bsize what_to_show rth.
          if what_to_show = ''MIDPOINT'' then Inr []
          else Inl (OtherException ''No market data permissions for IDEALPRO FOREX''))"
    by (simp_all add: ex_env_def)
  have chain: "candidate_chain ex_fx_profile None = [''MIDPOINT'', ''BID'', ''ASK'']"
    by (simp add: candidate_chain_def ex_fx_profile_def)
  have cache: "cache_read_pass ex_env ''EURUSD'' ex_fx_profile ex_start ex_end
                 [''MIDPOINT'', ''BID'', ''ASK''] ex_world_empty
               = (None, \<lparr>w_fs = Map.empty,
                         w_trace = [EvCacheGet ''MIDPOINT'', EvCacheGet ''BID'', EvCacheGet ''ASK'']\<rparr>)"
    by (simp add: get_cached_def ex_world_empty_def)
  have live: "live_fetch_pass ex_env ''EURUSD'' ex_fx_profile ex_fx_contract ex_start ex_end
                 [''MIDPOINT'', ''BID'', ''ASK'']
                 \<lparr>w_fs = Map.empty,
                  w_trace = [EvCacheGet ''MIDPOINT'', EvCacheGet ''BID'', EvCacheGet ''ASK'']\<rparr>
      = (empty_series,
      \<lparr>w_fs = Map.empty,
       w_trace = [EvCacheGet ''MIDPOINT'', EvCacheGet ''BID'', EvCacheGet ''ASK'',
                  EvConnect, EvQualifyContracts, EvReqHistoricalData ''MIDPOINT'' ''1 Y'', EvDisconnect,
                  EvConnect, EvQualifyContracts, EvReqHistoricalData ''BID'' ''1 Y'', EvDisconnect,
                  EvConnect]\<rparr>)"
    by (simp add: fetch_attempt_def request_bars_def connect_ib_def request_bars_body_def
        classify_exception_def env ex_duration Let_def string_eval)
  show ?thesis
    using fetch_series_accepted [OF ex_accepted, of ex_world_empty] chain cache live by simp
qed


section \<open>Reconnect loop: verified properties\<close>

lemma connect_attempts_append [simp]:
  "connect_attempts (tr @ evs) = connect_attempts tr + connect_attempts evs"
  by (simp add: connect_attempts_def)

lemma connect_attempts_backoff [simp]:
  "connect_attempts (backoff_trace d ks) = length ks"
  by (induction ks) (simp_all add: backoff_trace_def connect_attempts_def)

lemma reconnect_loop_all_fail:
  assumes "m_ib m = None" and "\<forall>n. isl (gw n)"
  shows "reconnect_loop gw ks (m, tr) = (m, tr @ backoff_trace (m_reconnect_delay m) ks)"
  using assms(1)
proof (induction ks arbitrary: tr)
  case Nil
  show ?case by (simp add: backoff_trace_def)
next
  case (Cons k ks)
  let ?tr = "tr @ [EvSleep (real (m_reconnect_delay m * k))]"
  obtain exc where "gw (connect_attempts ?tr) = Inl exc"
    using assms(2) by (metis isl_def)
  then have "connect gw (m, ?tr) = (Inl exc, m, ?tr @ [EvConnect, EvDisconnect])"
    using Cons.prems by (simp add: connect_def)
  then show ?case
    using Cons.IH [OF Cons.prems, of "?tr @ [EvConnect, EvDisconnect]"]
    by (simp add: backoff_trace_def)
qed

lemma reconnect_loop_first_success:
  assumes "m_ib m = None"
    and "\<forall>i<length pre. isl (gw (connect_attempts tr + i))"
    and "gw (connect_attempts tr + length pre) = Inr accounts"
  shows "reconnect_loop gw (pre @ k # post) (m, tr) =
           (m\<lparr>m_ib := Some \<lparr>ib_connected = True, ib_accounts = accounts\<rparr>, m_managed_accounts := accounts\<rparr>,
            tr @ backoff_trace (m_reconnect_delay m) pre @ [EvSleep (real (m_reconnect_delay m * k)), EvConnect])"
  using assms
proof (induction pre arbitrary: tr)
  case Nil
  then show ?case by (simp add: connect_def backoff_trace_def connect_attempts_def Let_def)
next
  case (Cons j pre)
  let ?tr = "tr @ [EvSleep (real (m_reconnect_delay m * j))]"
  have ca: "connect_attempts ?tr = connect_attempts tr" by (simp add: connect_attempts_def)
  obtain exc where "gw (connect_attempts ?tr) = Inl exc"
    using Cons.prems(2) [rule_format, of 0] ca by (auto simp: isl_def)
  then have c: "connect gw (m, ?tr) = (Inl exc, m, ?tr @ [EvConnect, EvDisconnect])"
    using Cons.prems(1) by (simp add: connect_def)
  let ?tr' = "?tr @ [EvConnect, EvDisconnect]"
  have ca': "connect_attempts ?tr' = connect_attempts tr + 1" by (simp add: connect_attempts_def)
  have a: "\<forall>i<length pre. isl (gw (connect_attempts ?tr' + i))"
    using Cons.prems(2) ca' by auto
  have b: "gw (connect_attempts ?tr' + length pre) = Inr accounts"
    using Cons.prems(3) ca' by simp
  show ?case
    using c Cons.IH [OF Cons.prems(1) a b] by (simp add: backoff_trace_def)
qed

lemma upt_1_4: "[1 ..< 3 + 1] = [1, 2, 3::nat]"
  by (simp add: upt_rec)

lemma on_disconnect_connected:
  assumes "\<not> m_manual_disconnect m" "\<not> m_reconnecting m"
  shows "on_disconnect m = (m\<lparr>m_ib := None, m_managed_accounts := [], m_reconnecting := True\<rparr>, True)"
  using assms by (simp add: on_disconnect_def Let_def)

lemma unsolicited_disconnect_all_fail:
  assumes "\<not> m_manual_disconnect m" "\<not> m_reconnecting m" and "\<forall>n. isl (gw n)"
  shows "unsolicited_disconnect gw (m, tr) =
           (m\<lparr>m_ib := None, m_managed_accounts := [], m_reconnecting := False\<rparr>,
            tr @ backoff_trace (m_reconnect_delay m) [1 ..< m_max_reconnect_attempts m + 1])"
proof -
  let ?m = "m\<lparr>m_ib := None, m_managed_accounts := [], m_reconnecting := True\<rparr>"
  have none: "m_ib ?m = None" by simp
  show ?thesis
    using on_disconnect_connected [OF assms(1,2)]
      reconnect_loop_all_fail [OF none assms(3), of "[1 ..< m_max_reconnect_attempts m + 1]" tr]
    by (simp add: unsolicited_disconnect_def reconnect_def del: upt_Suc)
qed

lemma upt_split_attempt:
  assumes "j < n"
  shows "[1 ..< n + 1] = [1 ..< j + 1] @ (j + 1) # [Suc (j + 1) ..< n + 1]"
proof -
  have "[1 ..< (j + 1) + (n - j)] = [1 ..< j + 1] @ [j + 1 ..< (j + 1) + (n - j)]"
    by (rule upt_add_eq_append) simp
  moreover have "(j + 1) + (n - j) = n + 1" using assms by simp
  moreover have "[j + 1 ..< n + 1] = (j + 1) # [Suc (j + 1) ..< n + 1]"
    by (rule upt_conv_Cons) (use assms in simp)
  ultimately show ?thesis by simp
qed

lemma unsolicited_disconnect_first_success:
  assumes "\<not> m_manual_disconnect m" "\<not> m_reconnecting m"
    and "j < m_max_reconnect_attempts m"
    and "\<forall>i<j. isl (gw (connect_attempts tr + i))"
    and "gw (connect_attempts tr + j) = Inr accounts"
  shows "unsolicited_disconnect gw (m, tr) =
           (m\<lparr>m_ib := Some \<lparr>ib_connected = True, ib_accounts = accounts\<rparr>,
              m_managed_accounts := accounts, m_reconnecting := False\<rparr>,
            tr @ backoff_trace (m_reconnect_delay m) [1 ..< j + 1]
               @ [EvSleep (real (m_reconnect_delay m * (j + 1))), EvConnect])"
proof -
  let ?m = "m\<lparr>m_ib := None, m_managed_accounts := [], m_reconnecting := True\<rparr>"
  let ?pre = "[1 ..< j + 1]"
  let ?post = "[Suc (j + 1) ..< m_max_reconnect_attempts m + 1]"
  have len: "length ?pre = j" by simp
  have none: "m_ib ?m = None" by simp
  have a: "\<forall>i<length ?pre. isl (gw (connect_attempts tr + i))" using assms(4) by (simp only: len)
  have b: "gw (connect_attempts tr + length ?pre) = Inr accounts" using assms(5) by (simp only: len)
  show ?thesis
    using on_disconnect_connected [OF assms(1,2)]
      reconnect_loop_first_success [OF none a b, of "j + 1" ?post]
      upt_split_attempt [OF assms(3)]
    by (simp add: unsolicited_disconnect_def reconnect_def del: upt_Suc)
qed

text \<open>
  Claim C9. After an unsolicited disconnect while connected, with the manager as
  \<open>__init__\<close> configures it (three attempts): when every connect attempt fails, the
  reconnect loop makes exactly three attempts, each after a sleep of the base delay times
  the attempt number, makes no fourth attempt, and leaves the manager disconnected: no
  session, no managed accounts, the reconnecting flag cleared. When an attempt succeeds the
  loop ends with it: the earlier attempts failed, no later attempt is made, and the manager
  holds the new session and its accounts.
\<close>

theorem reconnect_after_unsolicited_disconnect:
  assumes "m_ib m = Some ib" and "\<not> m_manual_disconnect m" and "\<not> m_reconnecting m"
    and "m_max_reconnect_attempts m = 3"
  shows "((\<forall>n. isl (gw n)) \<longrightarrow>
            unsolicited_disconnect gw (m, tr) =
              (m\<lparr>m_ib := None, m_managed_accounts := [], m_reconnecting := False\<rparr>,
               tr @ [EvSleep (real (m_reconnect_delay m * 1)), EvConnect, EvDisconnect,
                     EvSleep (real (m_reconnect_delay m * 2)), EvConnect, EvDisconnect,
                     EvSleep (real (m_reconnect_delay m * 3)), EvConnect, EvDisconnect])
            \<and> connect_attempts (snd (unsolicited_disconnect gw (m, tr))) = connect_attempts tr + 3)
       \<and> (\<forall>j accounts.
            j < 3 \<and> (\<forall>i<j. isl (gw (connect_attempts tr + i))) \<and>
            gw (connect_attempts tr + j) = Inr accounts \<longrightarrow>
            unsolicited_disconnect gw (m, tr) =
              (m\<lparr>m_ib := Some \<lparr>ib_connected = True, ib_accounts = accounts\<rparr>,
                 m_managed_accounts := accounts, m_reconnecting := False\<rparr>,
               tr @ backoff_trace (m_reconnect_delay m) [1 ..< j + 1]
                  @ [EvSleep (real (m_reconnect_delay m * (j + 1))), EvConnect]))"
proof (intro conjI allI impI)
  assume fail: "\<forall>n. isl (gw n)"
  have eq: "unsolicited_disconnect gw (m, tr) =
           (m\<lparr>m_ib := None, m_managed_accounts := [], m_reconnecting := False\<rparr>,
            tr @ backoff_trace (m_reconnect_delay m) [1, 2, 3])"
    using unsolicited_disconnect_all_fail [OF assms(2,3) fail, of tr] upt_1_4
    unfolding assms(4) by (simp only:)
  then show "unsolicited_disconnect gw (m, tr) =
              (m\<lparr>m_ib := None, m_managed_accounts := [], m_reconnecting := False\<rparr>,
               tr @ [EvSleep (real (m_reconnect_delay m * 1)), EvConnect, EvDisconnect,
                     EvSleep (real (m_reconnect_delay m * 2)), EvConnect, EvDisconnect,
                     EvSleep (real (m_reconnect_delay m * 3)), EvConnect, EvDisconnect])"
    by (simp add: backoff_trace_def)
  show "connect_attempts (snd (unsolicited_disconnect gw (m, tr))) = connect_attempts tr + 3"
    unfolding eq by simp
next
  fix j accounts
  assume h: "j < 3 \<and> (\<forall>i<j. isl (gw (connect_attempts tr + i))) \<and>
            gw (connect_attempts tr + j) = Inr accounts"
  then have "j < m_max_reconnect_attempts m" using assms(4) by simp
  then show "unsolicited_disconnect gw (m, tr) =
              (m\<lparr>m_ib := Some \<lparr>ib_connected = True, ib_accounts = accounts\<rparr>,
                 m_managed_accounts := accounts, m_reconnecting := False\<rparr>,
               tr @ backoff_trace (m_reconnect_delay m) [1 ..< j + 1]
                  @ [EvSleep (real (m_reconnect_delay m * (j + 1))), EvConnect])"
    using h by (intro unsolicited_disconnect_first_success [OF assms(2,3)]) simp_all
qed

theorem reconnect_after_unsolicited_disconnect_witness:
  "unsolicited_disconnect ex_gateway_down (ex_connected_manager, []) =
     (init_manager,
      [EvSleep 5, EvConnect, EvDisconnect, EvSleep 10, EvConnect, EvDisconnect,
       EvSleep 15, EvConnect, EvDisconnect])
   \<and> unsolicited_disconnect ex_gateway_back (ex_connected_manager, []) =
     (ex_connected_manager, [EvSleep 5, EvConnect, EvDisconnect, EvSleep 10, EvConnect])"
proof -
  have a: "m_ib ex_connected_manager = Some \<lparr>ib_connected = True, ib_accounts = [''DU1234567'']\<rparr>"
    and b: "\<not> m_manual_disconnect ex_connected_manager"
    and c: "\<not> m_reconnecting ex_connected_manager"
    and d: "m_max_reconnect_attempts ex_connected_manager = 3"
    by (simp_all add: ex_connected_manager_def init_manager_def)
  have down: "\<forall>n. isl (ex_gateway_down n)" by (simp add: ex_gateway_down_def)
  have bk: "(1::nat) < 3 \<and> (\<forall>i<1. isl (ex_gateway_back (connect_attempts [] + i))) \<and>
            ex_gateway_back (connect_attempts [] + 1) = Inr [''DU1234567'']"
    by (simp add: ex_gateway_back_def connect_attempts_def)
  have "unsolicited_disconnect ex_gateway_down (ex_connected_manager, []) =
     (init_manager,
      [EvSleep 5, EvConnect, EvDisconnect, EvSleep 10, EvConnect, EvDisconnect,
       EvSleep 15, EvConnect, EvDisconnect])"
    using reconnect_after_unsolicited_disconnect [OF a b c d, of ex_gateway_down "[]",
        THEN conjunct1, THEN mp, OF down, THEN conjunct1]
    by (simp add: ex_connected_manager_def init_manager_def)
  moreover have "unsolicited_disconnect ex_gateway_back (ex_connected_manager, []) =
     (ex_connected_manager, [EvSleep 5, EvConnect, EvDisconnect, EvSleep 10, EvConnect])"
    using reconnect_after_unsolicited_disconnect [OF a b c d, of ex_gateway_back "[]",
        THEN conjunct2, THEN spec, THEN spec, THEN mp, OF bk]
    by (simp add: ex_connected_manager_def init_manager_def backoff_trace_def)
  ultimately show ?thesis by simp
qed


section \<open>Snapshots: verified properties\<close>










text \<open>Two contracts, the second unknown to the gateway.\<close>

lemma ex_snapshot_result:
  "fetch_snapshot ex_snapshot_env [ex_fx_contract, ex_unknown_contract] 5 [] =
     ([[(''bid'', JFloat 4510), (''ask'', JFloat 4511), (''last'', JNone), (''mid'', JFloat (9021 / 2)),
        (''volume'', JInt 1250), (''open_interest'', JNone), (''implied_vol'', JNone),
        (''delta'', JNone), (''gamma'', JNone), (''theta'', JNone), (''vega'', JNone)],
       [(''error'', JStr ''unable to qualify contract'')]],
      [EvConnect, EvQualifyContracts, EvQualifyContracts, EvReqMktData 0, EvSleep 5, EvDisconnect])"
  by (simp add: fetch_snapshot_def connect_ib_def ex_snapshot_env_def ex_env_def ex_fx_contract_def
      ex_unknown_contract_def snapshot_entry_def error_entry_def ex_ticker_def as_float_def as_int_def
      int_of_float_def json_float_def json_int_def Let_def string_eval)


end
